theory Spec2Isabelle
  imports Main "HOL-Library.Word" "HOL-Library.AList"
begin

unbundle bit_operations_syntax

section \<open>The log sequencer (log/sequencer.go)\<close>

text \<open>
  A shallow embedding of \<^verbatim>\<open>log/sequencer.go\<close>. Go's \<^verbatim>\<open>int64\<close> is a 64-bit word
  (addition wraps, comparisons of revisions are signed), Go's \<^verbatim>\<open>int\<close> (a depth, a limit,
  a count) is an \<open>int\<close>: no arithmetic that could overflow is done on it. A byte slice is
  a list of 8-bit words; \<^verbatim>\<open>nil\<close> and the empty slice are both \<open>[]\<close>, which is all that
  \<^verbatim>\<open>len\<close> sees.
\<close>

type_synonym int64 = "64 word"
type_synonym bytes = "8 word list"
type_synonym Hash = bytes

subsection \<open>Data of package trillian\<close>

text \<open>\<^verbatim>\<open>trillian.DigitallySigned\<close>, reduced to the signature bytes.\<close>

type_synonym DigitallySigned = bytes

text \<open>\<^verbatim>\<open>trillian.SignedLogRoot\<close>; \<open>Signature\<close> is a pointer in Go, \<open>None\<close> is \<^verbatim>\<open>nil\<close>.\<close>

record SignedLogRoot =
  TimestampNanos :: int64
  RootHash :: Hash
  TreeSize :: int64
  Signature :: "DigitallySigned option"
  LogId :: bytes
  TreeRevision :: int64

text \<open>\<^verbatim>\<open>trillian.LogLeaf\<close>, with the fields the sequencer and the storage contract name.\<close>

record LogLeaf =
  LeafHash :: Hash
  LeafValue :: bytes
  ExtraData :: bytes
  SequenceNumber :: int64

subsection \<open>Errors, results and panics\<close>

text \<open>
  A Go \<^verbatim>\<open>error\<close>. \<open>Err\<close> is an error made by a collaborator (storage, key manager,
  signer, node id constructor); the other constructors are the errors the sequencer and
  the compact tree make themselves.
\<close>

datatype error =
    Err string
  | DidNotRetrieveOneNode nat int64
  | WriteRevisionMismatch int64 int64
  | RootMismatch

text \<open>A call either returns or panics.\<close>

datatype 'a outcome = Returns 'a | Panics

subsection \<open>Package storage: node ids and nodes\<close>

text \<open>
  Modelled from the spec: \<^verbatim>\<open>storage.NodeID\<close> is not among the sources. Section 3 of the
  spec: a node id is ``a path from root identifying depth and horizontal index; depth 0 =
  leaf level''.
\<close>

record NodeID =
  nid_depth :: int64
  nid_index :: int64

text \<open>\<^verbatim>\<open>storage.Node\<close>.\<close>

record Node =
  NodeID :: NodeID
  NodeHash :: Hash
  NodeRevision :: int64

text \<open>
  The two functions of package storage on node ids that the sequencer calls,
  \<^verbatim>\<open>storage.NewNodeIDForTreeCoords(depth, index, maxPathBits)\<close> and \<^verbatim>\<open>NodeID.String()\<close>,
  are not among the sources and the spec does not say when the first fails: both are
  parameters of the model.
\<close>

record StorageFns =
  NewNodeIDForTreeCoords :: "int64 \<Rightarrow> int64 \<Rightarrow> int \<Rightarrow> error + NodeID"
  NodeID_String :: "NodeID \<Rightarrow> string"

text \<open>\<^verbatim>\<open>const maxTreeDepth = 64\<close> (line 29).\<close>

definition maxTreeDepth :: int where
  "maxTreeDepth = 64"

subsection \<open>Package merkle: the tree hasher and the compact Merkle tree\<close>

text \<open>
  \<^verbatim>\<open>merkle.TreeHasher\<close> is injected into the sequencer; section 4.A of the spec names its
  three operations.
\<close>

record TreeHasher =
  HashEmpty :: Hash
  HashLeaf :: "bytes \<Rightarrow> Hash"
  HashChildren :: "Hash \<Rightarrow> Hash \<Rightarrow> Hash"

text \<open>
  Modelled from the spec: \<^verbatim>\<open>merkle.CompactMerkleTree\<close> is not among the sources. Section
  3: ``a sequence of spine hashes, one per bit set in tree_size, representing the roots of
  maximal complete subtrees covering the leaves so far''. The spine is kept lowest level
  first.
\<close>

record CompactMerkleTree =
  ct_hasher :: TreeHasher
  ct_size :: int64
  ct_spine :: "Hash list"

text \<open>Modelled from the spec: \<open>new_empty()\<close>: \<open>size = 0\<close>, \<open>spine = []\<close>.\<close>

definition NewCompactMerkleTree :: "TreeHasher \<Rightarrow> CompactMerkleTree" where
  "NewCompactMerkleTree h = \<lparr>ct_hasher = h, ct_size = 0, ct_spine = []\<rparr>"

text \<open>Modelled from the spec: \<open>tree.size\<close>, the number of leaves appended so far.\<close>

definition Size :: "CompactMerkleTree \<Rightarrow> int64" where
  "Size mt = ct_size mt"

text \<open>
  Modelled from the spec: \<open>current_root()\<close> ``folds spine from lowest level upward using
  hash_children; if spine is empty returns empty_root()''. A single entry is the root.
\<close>

definition CurrentRoot :: "CompactMerkleTree \<Rightarrow> Hash" where
  "CurrentRoot mt =
     (case ct_spine mt of
        [] \<Rightarrow> HashEmpty (ct_hasher mt)
      | x # xs \<Rightarrow> foldl (\<lambda>acc e. HashChildren (ct_hasher mt) e acc) x xs)"

text \<open>
  Modelled from the spec: the loop of \<open>append\<close>, which ``iteratively combines the new leaf
  up the spine as long as the lowest bit of size is 1, emitting each intermediate hash
  through emit''. \<open>t\<close> is the part of the size not yet looked at, \<open>lvl\<close> the level of the
  running hash \<open>carry\<close> and \<open>idx\<close> its horizontal index there; \<open>emit\<close> is the caller's
  callback, which changes the caller's state \<open>st\<close>. The spine has one entry per bit set,
  so it cannot run out while a bit is set; were it to, the loop stops.
\<close>

fun combine_up ::
  "TreeHasher \<Rightarrow> nat \<Rightarrow> int \<Rightarrow> int64 \<Rightarrow> Hash \<Rightarrow> Hash list \<Rightarrow>
   (int \<Rightarrow> int64 \<Rightarrow> Hash \<Rightarrow> 'st \<Rightarrow> 'st) \<Rightarrow> 'st \<Rightarrow> Hash list \<times> 'st" where
  "combine_up h t lvl idx carry [] emit st = ([carry], st)"
| "combine_up h t lvl idx carry (l # rest) emit st =
     (if odd t then
        (let carry' = HashChildren h l carry;
             idx' = drop_bit 1 idx
         in combine_up h (t div 2) (lvl + 1) idx' carry' rest emit (emit (lvl + 1) idx' carry' st))
      else (carry # l # rest, st))"

text \<open>
  Modelled from the spec: \<open>append(leaf_hash, emit)\<close> ``returns the 0-based sequence number
  assigned (= old size)'' and ``updates size by 1''. The result is the sequence number,
  the tree after the call and the caller's state after the callbacks.
\<close>

definition AddLeafHash ::
  "CompactMerkleTree \<Rightarrow> Hash \<Rightarrow> (int \<Rightarrow> int64 \<Rightarrow> Hash \<Rightarrow> 'st \<Rightarrow> 'st) \<Rightarrow> 'st \<Rightarrow>
   int64 \<times> CompactMerkleTree \<times> 'st" where
  "AddLeafHash mt leafHash emit st =
     (let seq = ct_size mt;
          (spine', st') = combine_up (ct_hasher mt) (unat (ct_size mt)) 0 seq leafHash (ct_spine mt) emit st
      in (seq, mt\<lparr>ct_size := ct_size mt + 1, ct_spine := spine'\<rparr>, st'))"

text \<open>
  Modelled from the spec: the fetches of \<open>new_with_state\<close>: ``for each bit set in size at
  level L, fetch the hash of the subtree root at that level and position''. The subtree of
  level \<open>L\<close> is the last complete one of its level, at index \<open>(size >> L) - 1\<close>. A fetch
  that fails ends the hydration with its error.
\<close>

fun fetch_spine ::
  "(int \<Rightarrow> int64 \<Rightarrow> error + Hash) \<Rightarrow> int64 \<Rightarrow> nat list \<Rightarrow> error + Hash list" where
  "fetch_spine fetch sz [] = Inr []"
| "fetch_spine fetch sz (L # Ls) =
     (if bit sz L then
        (case fetch (int L) (drop_bit L sz - 1) of
           Inl e \<Rightarrow> Inl e
         | Inr h \<Rightarrow>
             (case fetch_spine fetch sz Ls of
                Inl e \<Rightarrow> Inl e
              | Inr hs \<Rightarrow> Inr (h # hs)))
      else fetch_spine fetch sz Ls)"

text \<open>
  Modelled from the spec: \<open>new_with_state(size, root_hash, fetch)\<close> ``verifies that
  combining spine entries upward reproduces root_hash; fails with CORRUPT_STATE
  otherwise''.
\<close>

definition NewCompactMerkleTreeWithState ::
  "TreeHasher \<Rightarrow> int64 \<Rightarrow> (int \<Rightarrow> int64 \<Rightarrow> error + Hash) \<Rightarrow> Hash \<Rightarrow> error + CompactMerkleTree" where
  "NewCompactMerkleTreeWithState h sz fetch expectedRoot =
     (case fetch_spine fetch sz [0..<64] of
        Inl e \<Rightarrow> Inl e
      | Inr spine \<Rightarrow>
          (let mt = \<lparr>ct_hasher = h, ct_size = sz, ct_spine = spine\<rparr>
           in if CurrentRoot mt = expectedRoot then Inr mt else Inl RootMismatch))"

subsection \<open>Package storage: the log storage and its transactions\<close>

text \<open>
  Modelled from the spec: \<^verbatim>\<open>storage.LogStorage\<close> and \<^verbatim>\<open>storage.LogTX\<close> are interfaces
  whose implementation is not among the sources. What follows is the contract of section
  4.C over the persisted state of sections 3 and 6: the queue of pending leaves, the
  sequenced leaves, the interior-node rows and the STH rows (newest first).
\<close>

record LogStore =
  queue :: "LogLeaf list"
  sequenced :: "LogLeaf list"
  nodes :: "Node list"
  roots :: "SignedLogRoot list"

text \<open>
  Modelled from the spec: the behaviour of one storage, an interface that is injected:
  the error, if any, with which each operation fails, and the write revision it gives a
  transaction begun on a state (``a transaction owns a write revision W known at
  begin()'').
\<close>

record LogStorage =
  begin_error :: "error option"
  write_revision :: "LogStore \<Rightarrow> int64"
  dequeue_error :: "error option"
  latest_root_error :: "error option"
  get_nodes_error :: "error option"
  update_leaves_error :: "error option"
  set_nodes_error :: "error option"
  store_root_error :: "error option"
  commit_error :: "error option"

text \<open>The calls made on transactions that begin, end or write one, in order.\<close>

datatype call =
    CallBegin
  | CallDequeueLeaves int
  | CallUpdateSequencedLeaves "LogLeaf list"
  | CallSetMerkleNodes "Node list"
  | CallStoreSignedLogRoot SignedLogRoot
  | CallCommit
  | CallRollback

text \<open>The world between transactions: the committed state and the calls made so far.\<close>

record world =
  db :: LogStore
  calls :: "call list"

text \<open>
  Modelled from the spec: an open transaction: the committed state it began on, its
  working copy, its write revision and the calls so far.
\<close>

record LogTX =
  tx_storage :: LogStorage
  tx_base :: LogStore
  tx_work :: LogStore
  tx_revision :: int64
  tx_calls :: "call list"

text \<open>
  Modelled from the spec: \<open>begin()\<close> gives a transaction on the committed state, with
  its write revision, or fails.
\<close>

definition Begin :: "LogStorage \<Rightarrow> world \<Rightarrow> error + LogTX" where
  "Begin ls w =
     (case begin_error ls of
        Some e \<Rightarrow> Inl e
      | None \<Rightarrow>
          Inr \<lparr>tx_storage = ls, tx_base = db w, tx_work = db w,
               tx_revision = write_revision ls (db w), tx_calls = calls w @ [CallBegin]\<rparr>)"

text \<open>A call on a transaction is recorded, whether it fails or not.\<close>

definition called :: "call \<Rightarrow> LogTX \<Rightarrow> LogTX" where
  "called c tx = tx\<lparr>tx_calls := tx_calls tx @ [c]\<rparr>"

text \<open>
  Modelled from the spec: \<open>dequeue_leaves(limit)\<close> returns up to \<open>limit\<close> leaves from the
  head of the queue, in the order of the queue, and takes them off it.
\<close>

definition DequeueLeaves :: "LogTX \<Rightarrow> int \<Rightarrow> (error + LogLeaf list) \<times> LogTX" where
  "DequeueLeaves tx limit =
     (let tx' = called (CallDequeueLeaves limit) tx
      in case dequeue_error (tx_storage tx) of
           Some e \<Rightarrow> (Inl e, tx')
         | None \<Rightarrow>
             (Inr (take (nat limit) (queue (tx_work tx))),
              tx'\<lparr>tx_work := (tx_work tx)\<lparr>queue := drop (nat limit) (queue (tx_work tx))\<rparr>\<rparr>))"

text \<open>
  Modelled from the spec: \<open>latest_signed_log_root()\<close> ``returns a zero-valued STH for
  empty logs (size=0, revision=0, root_hash empty/unset)'', and the newest root
  otherwise.
\<close>

definition zeroRoot :: SignedLogRoot where
  "zeroRoot = \<lparr>TimestampNanos = 0, RootHash = [], TreeSize = 0, Signature = None,
               LogId = [], TreeRevision = 0\<rparr>"

definition LatestSignedLogRoot :: "LogTX \<Rightarrow> error + SignedLogRoot" where
  "LatestSignedLogRoot tx =
     (case latest_root_error (tx_storage tx) of
        Some e \<Rightarrow> Inl e
      | None \<Rightarrow> Inr (case roots (tx_work tx) of [] \<Rightarrow> zeroRoot | r # _ \<Rightarrow> r))"

text \<open>
  Modelled from the spec: \<open>get_merkle_nodes(revision, ids)\<close>: for each id the rows ``at or before R'', that is
  the rows of that id with the greatest revision not above \<open>R\<close>. A store that has no row
  for an id returns none for it, and one that has the row twice returns both.
\<close>

definition latest_rows :: "Node list \<Rightarrow> int64 \<Rightarrow> NodeID \<Rightarrow> Node list" where
  "latest_rows rows revision nid =
     (let cands = filter (\<lambda>n. NodeID n = nid \<and> NodeRevision n \<le>s revision) rows
      in filter (\<lambda>n. list_all (\<lambda>m. NodeRevision m \<le>s NodeRevision n) cands) cands)"

definition GetMerkleNodes :: "LogTX \<Rightarrow> int64 \<Rightarrow> NodeID list \<Rightarrow> error + Node list" where
  "GetMerkleNodes tx revision ids =
     (case get_nodes_error (tx_storage tx) of
        Some e \<Rightarrow> Inl e
      | None \<Rightarrow> Inr (concat (map (latest_rows (nodes (tx_work tx)) revision) ids)))"

text \<open>Modelled from the spec: the write revision the transaction owns.\<close>

definition WriteRevision :: "LogTX \<Rightarrow> int64" where
  "WriteRevision tx = tx_revision tx"

text \<open>
  Modelled from the spec: \<open>update_sequenced_leaves(leaves)\<close> writes the leaves with the
  sequence numbers they were given.
\<close>

definition UpdateSequencedLeaves :: "LogTX \<Rightarrow> LogLeaf list \<Rightarrow> error option \<times> LogTX" where
  "UpdateSequencedLeaves tx leaves =
     (let tx' = called (CallUpdateSequencedLeaves leaves) tx
      in case update_leaves_error (tx_storage tx) of
           Some e \<Rightarrow> (Some e, tx')
         | None \<Rightarrow>
             (None, tx'\<lparr>tx_work := (tx_work tx)\<lparr>sequenced := sequenced (tx_work tx) @ leaves\<rparr>\<rparr>))"

text \<open>
  Modelled from the spec: \<open>set_merkle_nodes(nodes)\<close> ``fails on (node_id, revision)
  collision'', with a row that is there or among the nodes given.
\<close>

definition row_key :: "Node \<Rightarrow> NodeID \<times> int64" where
  "row_key n = (NodeID n, NodeRevision n)"

definition SetMerkleNodes :: "LogTX \<Rightarrow> Node list \<Rightarrow> error option \<times> LogTX" where
  "SetMerkleNodes tx ns =
     (let tx' = called (CallSetMerkleNodes ns) tx
      in case set_nodes_error (tx_storage tx) of
           Some e \<Rightarrow> (Some e, tx')
         | None \<Rightarrow>
             if list_ex (\<lambda>n. row_key n \<in> set (map row_key (nodes (tx_work tx)))) ns
                \<or> \<not> distinct (map row_key ns)
             then (Some (Err ''node_id, revision collision''), tx')
             else (None, tx'\<lparr>tx_work := (tx_work tx)\<lparr>nodes := nodes (tx_work tx) @ ns\<rparr>\<rparr>))"

text \<open>
  Modelled from the spec: \<open>store_signed_log_root(sth)\<close> ``fails if tree_revision already
  exists''.
\<close>

definition StoreSignedLogRoot :: "LogTX \<Rightarrow> SignedLogRoot \<Rightarrow> error option \<times> LogTX" where
  "StoreSignedLogRoot tx root =
     (let tx' = called (CallStoreSignedLogRoot root) tx
      in case store_root_error (tx_storage tx) of
           Some e \<Rightarrow> (Some e, tx')
         | None \<Rightarrow>
             if TreeRevision root \<in> set (map TreeRevision (roots (tx_work tx)))
             then (Some (Err ''tree_revision already exists''), tx')
             else (None, tx'\<lparr>tx_work := (tx_work tx)\<lparr>roots := root # roots (tx_work tx)\<rparr>\<rparr>))"

text \<open>
  Modelled from the spec: \<open>commit()\<close> makes the working copy the committed state; a commit that fails writes
  nothing (``partial writes are impossible''). \<open>rollback()\<close> drops the working copy
  (``no write escapes an aborted transaction''); the sequencer does not look at what it
  returns.
\<close>

definition Commit :: "LogTX \<Rightarrow> error option \<times> world" where
  "Commit tx =
     (case commit_error (tx_storage tx) of
        Some e \<Rightarrow> (Some e, \<lparr>db = tx_base tx, calls = tx_calls tx @ [CallCommit]\<rparr>)
      | None \<Rightarrow> (None, \<lparr>db = tx_work tx, calls = tx_calls tx @ [CallCommit]\<rparr>))"

definition Rollback :: "LogTX \<Rightarrow> world" where
  "Rollback tx = \<lparr>db = tx_base tx, calls = tx_calls tx @ [CallRollback]\<rparr>"

text \<open>The world a panic leaves: the transaction is neither committed nor rolled back.\<close>

definition abandoned :: "LogTX \<Rightarrow> world" where
  "abandoned tx = \<lparr>db = tx_base tx, calls = tx_calls tx\<rparr>"

subsection \<open>Package crypto: the key manager\<close>

text \<open>
  \<^verbatim>\<open>crypto.KeyManager\<close> is injected and package crypto is not among the sources:
  \<open>Signer_error\<close> is the error, if any, of \<^verbatim>\<open>keyManager.Signer()\<close>, and \<open>SignLogRoot\<close>
  is what the \<^verbatim>\<open>TrillianSigner\<close> built on that signer answers.
\<close>

record KeyManager =
  Signer_error :: "error option"
  SignLogRoot :: "SignedLogRoot \<Rightarrow> error + DigitallySigned"

subsection \<open>The sequencer\<close>

text \<open>
  \<^verbatim>\<open>type Sequencer struct\<close>. \<open>timeSource\<close> is the value of
  \<^verbatim>\<open>s.timeSource.Now().UnixNano()\<close>, read once in each operation.
\<close>

record Sequencer =
  hasher :: TreeHasher
  timeSource :: int64
  logStorage :: LogStorage
  keyManager :: KeyManager

text \<open>The callback of \<^verbatim>\<open>buildMerkleTreeFromStorageAtRoot\<close> (lines 43 to 62).\<close>

definition fetchNode ::
  "StorageFns \<Rightarrow> SignedLogRoot \<Rightarrow> LogTX \<Rightarrow> int \<Rightarrow> int64 \<Rightarrow> error + Hash" where
  "fetchNode pkg root tx depth index =
     (case NewNodeIDForTreeCoords pkg (of_int depth) index maxTreeDepth of
        Inl err \<Rightarrow> Inl err
      | Inr nodeId \<Rightarrow>
          (case GetMerkleNodes tx (TreeRevision root) [nodeId] of
             Inl err \<Rightarrow> Inl err
           | Inr ns \<Rightarrow>
               if length ns \<noteq> 1
               then Inl (DidNotRetrieveOneNode (length ns) (TreeRevision root))
               else Inr (NodeHash (ns ! 0))))"

text \<open>\<^verbatim>\<open>buildMerkleTreeFromStorageAtRoot\<close> (lines 42 to 65).\<close>

definition buildMerkleTreeFromStorageAtRoot ::
  "StorageFns \<Rightarrow> Sequencer \<Rightarrow> SignedLogRoot \<Rightarrow> LogTX \<Rightarrow> error + CompactMerkleTree" where
  "buildMerkleTreeFromStorageAtRoot pkg s root tx =
     NewCompactMerkleTreeWithState (hasher s) (TreeSize root) (fetchNode pkg root tx) (RootHash root)"

text \<open>
  \<^verbatim>\<open>map[string]storage.Node\<close> as an association list: an assignment to a key that is
  there replaces its value. Go ranges over a map in no fixed order; the model ranges in
  the order of first insertion.
\<close>

type_synonym nodeMap = "(string \<times> Node) list"

text \<open>\<^verbatim>\<open>buildNodesFromNodeMap\<close> (lines 67 to 76); the error it returns is always \<^verbatim>\<open>nil\<close>.\<close>

definition buildNodesFromNodeMap :: "nodeMap \<Rightarrow> int64 \<Rightarrow> error + Node list" where
  "buildNodesFromNodeMap nodeMap newVersion =
     Inr (map (\<lambda>(_, node). node\<lparr>NodeRevision := newVersion\<rparr>) nodeMap)"

text \<open>The callback \<^verbatim>\<open>sequenceLeaves\<close> gives \<^verbatim>\<open>AddLeafHash\<close> (lines 85 to 94).\<close>

definition recordNode :: "StorageFns \<Rightarrow> int \<Rightarrow> int64 \<Rightarrow> Hash \<Rightarrow> nodeMap \<Rightarrow> nodeMap" where
  "recordNode pkg depth index hash nodeMap =
     (case NewNodeIDForTreeCoords pkg (of_int depth) index maxTreeDepth of
        Inl err \<Rightarrow> nodeMap
      | Inr nodeId \<Rightarrow>
          AList.update (NodeID_String pkg nodeId)
            \<lparr>NodeID = nodeId, NodeHash = hash, NodeRevision = 0\<rparr> nodeMap)"

text \<open>
  The loop of \<^verbatim>\<open>sequenceLeaves\<close> over the leaves still to do, from the tree, the node map
  and the sequence numbers so far. The tree is behind a pointer in Go: the model returns
  it.
\<close>

fun sequenceLeaves_loop ::
  "StorageFns \<Rightarrow> CompactMerkleTree \<Rightarrow> nodeMap \<Rightarrow> int64 list \<Rightarrow> LogLeaf list \<Rightarrow>
   error + (nodeMap \<times> int64 list \<times> CompactMerkleTree)" where
  "sequenceLeaves_loop pkg mt nodeMap sequenceNumbers [] = Inr (nodeMap, sequenceNumbers, mt)"
| "sequenceLeaves_loop pkg mt nodeMap sequenceNumbers (leaf # leaves) =
     (case AddLeafHash mt (LeafHash leaf) (recordNode pkg) nodeMap of
        (seq, mt', nodeMap') \<Rightarrow>
          (case NewNodeIDForTreeCoords pkg 0 seq maxTreeDepth of
             Inl err \<Rightarrow> Inl err
           | Inr leafNodeID \<Rightarrow>
               sequenceLeaves_loop pkg mt'
                 (AList.update (NodeID_String pkg leafNodeID)
                    \<lparr>NodeID = leafNodeID, NodeHash = LeafHash leaf, NodeRevision = 0\<rparr> nodeMap')
                 (sequenceNumbers @ [seq]) leaves))"

text \<open>\<^verbatim>\<open>sequenceLeaves\<close> (lines 78 to 109): the loop from an empty map and no numbers.\<close>

definition sequenceLeaves ::
  "StorageFns \<Rightarrow> CompactMerkleTree \<Rightarrow> LogLeaf list \<Rightarrow>
   error + (nodeMap \<times> int64 list \<times> CompactMerkleTree)" where
  "sequenceLeaves pkg mt leaves = sequenceLeaves_loop pkg mt [] [] leaves"

text \<open>\<^verbatim>\<open>initMerkleTreeFromStorage\<close> (lines 111 to 118).\<close>

definition initMerkleTreeFromStorage ::
  "StorageFns \<Rightarrow> Sequencer \<Rightarrow> SignedLogRoot \<Rightarrow> LogTX \<Rightarrow> error + CompactMerkleTree" where
  "initMerkleTreeFromStorage pkg s currentRoot tx =
     (if TreeSize currentRoot = 0 then Inr (NewCompactMerkleTree (hasher s))
      else buildMerkleTreeFromStorageAtRoot pkg s currentRoot tx)"

text \<open>\<^verbatim>\<open>signRoot\<close> (lines 120 to 139).\<close>

definition signRoot :: "Sequencer \<Rightarrow> SignedLogRoot \<Rightarrow> error + DigitallySigned" where
  "signRoot s root =
     (case Signer_error (keyManager s) of
        Some err \<Rightarrow> Inl err
      | None \<Rightarrow>
          (case SignLogRoot (keyManager s) root of
             Inl err \<Rightarrow> Inl err
           | Inr signature \<Rightarrow> Inr signature))"

text \<open>
  The struct literal of lines 253 to 259 and of lines 316 to 322: the new root before it is
  signed. The two differ in the tree revision only, the write revision in
  \<^verbatim>\<open>SequenceBatch\<close> and the current root's plus one in \<^verbatim>\<open>SignRoot\<close>.
\<close>

definition newLogRootOf ::
  "Sequencer \<Rightarrow> CompactMerkleTree \<Rightarrow> SignedLogRoot \<Rightarrow> int64 \<Rightarrow> SignedLogRoot" where
  "newLogRootOf s merkleTree currentRoot revision =
     \<lparr>TimestampNanos = timeSource s, RootHash = CurrentRoot merkleTree,
      TreeSize = Size merkleTree, Signature = None,
      LogId = LogId currentRoot, TreeRevision = revision\<rparr>"

text \<open>\<^verbatim>\<open>SignRoot\<close> (lines 289 to 343): the error it returns and the world it leaves.\<close>

definition SignRoot :: "StorageFns \<Rightarrow> Sequencer \<Rightarrow> world \<Rightarrow> error option \<times> world" where
  "SignRoot pkg s w =
     (case Begin (logStorage s) w of
        Inl err \<Rightarrow> (Some err, w)
      | Inr tx \<Rightarrow>
          (case LatestSignedLogRoot tx of
             Inl err \<Rightarrow> (Some err, Rollback tx)
           | Inr currentRoot \<Rightarrow>
               (case initMerkleTreeFromStorage pkg s currentRoot tx of
                  Inl err \<Rightarrow> (Some err, Rollback tx)
                | Inr merkleTree \<Rightarrow>
                    (let newLogRoot = newLogRootOf s merkleTree currentRoot (TreeRevision currentRoot + 1)
                     in case signRoot s newLogRoot of
                          Inl err \<Rightarrow> (Some err, Rollback tx)
                        | Inr signature \<Rightarrow>
                            (case StoreSignedLogRoot tx (newLogRoot\<lparr>Signature := Some signature\<rparr>) of
                               (Some err, tx1) \<Rightarrow> (Some err, Rollback tx1)
                             | (None, tx1) \<Rightarrow> Commit tx1)))))"

text \<open>
  The loop of lines 218 to 220: for each index of \<open>sequenceNumbers\<close>,
  \<^verbatim>\<open>leaves[index].SequenceNumber = sequenceNumbers[index]\<close>. It runs after the check that
  both have one length, so every index is in range.
\<close>

definition assignSequenceNumbers :: "LogLeaf list \<Rightarrow> int64 list \<Rightarrow> LogLeaf list" where
  "assignSequenceNumbers leaves sequenceNumbers =
     fold (\<lambda>index ls. ls[index := (ls ! index)\<lparr>SequenceNumber := sequenceNumbers ! index\<rparr>])
       [0..<length sequenceNumbers] leaves"

text \<open>
  \<^verbatim>\<open>SequenceBatch\<close> from line 213 on, as a function of what is in scope there: the open
  transaction, the current root, the write revision, the dequeued leaves and the three
  results of \<^verbatim>\<open>sequenceLeaves\<close>.
\<close>

definition integrateBatch ::
  "Sequencer \<Rightarrow> LogTX \<Rightarrow> SignedLogRoot \<Rightarrow> int64 \<Rightarrow> LogLeaf list \<Rightarrow> nodeMap \<Rightarrow> int64 list \<Rightarrow>
   CompactMerkleTree \<Rightarrow> (int \<times> error option) outcome \<times> world" where
  "integrateBatch s tx currentRoot newVersion leaves nodeMap sequenceNumbers merkleTree =
     (if length sequenceNumbers \<noteq> length leaves then (Panics, abandoned tx)
      else
        (let leaves' = assignSequenceNumbers leaves sequenceNumbers
         in case UpdateSequencedLeaves tx leaves' of
              (Some err, tx1) \<Rightarrow> (Returns (0, Some err), Rollback tx1)
            | (None, tx1) \<Rightarrow>
                (case buildNodesFromNodeMap nodeMap newVersion of
                   Inl err \<Rightarrow> (Returns (0, Some err), Rollback tx1)
                 | Inr targetNodes \<Rightarrow>
                     (case SetMerkleNodes tx1 targetNodes of
                        (Some err, tx2) \<Rightarrow> (Returns (0, Some err), Rollback tx2)
                      | (None, tx2) \<Rightarrow>
                          (let newLogRoot = newLogRootOf s merkleTree currentRoot newVersion
                           in case signRoot s newLogRoot of
                                Inl err \<Rightarrow> (Returns (0, Some err), Rollback tx2)
                              | Inr signature \<Rightarrow>
                                  (case StoreSignedLogRoot tx2 (newLogRoot\<lparr>Signature := Some signature\<rparr>) of
                                     (Some err, tx3) \<Rightarrow> (Returns (0, Some err), Rollback tx3)
                                   | (None, tx3) \<Rightarrow>
                                       (case Commit tx3 of
                                          (Some err, w) \<Rightarrow> (Returns (0, Some err), w)
                                        | (None, w) \<Rightarrow> (Returns (int (length leaves), None), w))))))))"

text \<open>
  \<^verbatim>\<open>SequenceBatch\<close> (lines 146 to 286): the count and the error it returns, or the
  panic, and the world it leaves. In the branch of the empty batch the result of
  \<^verbatim>\<open>tx.Commit()\<close> is not looked at (line 180).
\<close>

definition SequenceBatch ::
  "StorageFns \<Rightarrow> Sequencer \<Rightarrow> int \<Rightarrow> (SignedLogRoot \<Rightarrow> bool) \<Rightarrow> world \<Rightarrow>
   (int \<times> error option) outcome \<times> world" where
  "SequenceBatch pkg s limit expiryFunc w =
     (case Begin (logStorage s) w of
        Inl err \<Rightarrow> (Returns (0, Some err), w)
      | Inr tx \<Rightarrow>
          (case DequeueLeaves tx limit of
             (Inl err, tx1) \<Rightarrow> (Returns (0, Some err), Rollback tx1)
           | (Inr leaves, tx1) \<Rightarrow>
               (case LatestSignedLogRoot tx1 of
                  Inl err \<Rightarrow> (Returns (0, Some err), Rollback tx1)
                | Inr currentRoot \<Rightarrow>
                    if length leaves = 0 then
                      (let w1 = snd (Commit tx1)
                       in if expiryFunc currentRoot
                          then (case SignRoot pkg s w1 of (err, w2) \<Rightarrow> (Returns (0, err), w2))
                          else (Returns (0, None), w1))
                    else
                      (case initMerkleTreeFromStorage pkg s currentRoot tx1 of
                         Inl err \<Rightarrow> (Returns (0, Some err), Rollback tx1)
                       | Inr merkleTree \<Rightarrow>
                           (let newVersion = WriteRevision tx1
                            in if newVersion \<noteq> TreeRevision currentRoot + 1
                               then (Returns (0, Some (WriteRevisionMismatch newVersion
                                        (TreeRevision currentRoot + 1))), Rollback tx1)
                               else
                                 (case sequenceLeaves pkg merkleTree leaves of
                                    Inl err \<Rightarrow> (Returns (0, Some err), Rollback tx1)
                                  | Inr (nodeMap, sequenceNumbers, merkleTree') \<Rightarrow>
                                      integrateBatch s tx1 currentRoot newVersion leaves nodeMap
                                        sequenceNumbers merkleTree'))))))"

subsection \<open>How a transaction ends\<close>

text \<open>
  \<open>rolledBack tx w'\<close>: the transaction \<open>tx\<close> was ended by \<open>Rollback\<close>, its last call; no
  call made on it in between was a \<open>Commit\<close> or another \<open>Rollback\<close>, and the committed
  state of \<open>w'\<close> is the one the transaction began on.
\<close>

definition rolledBack :: "LogTX \<Rightarrow> world \<Rightarrow> bool" where
  "rolledBack tx w' \<longleftrightarrow>
     db w' = tx_base tx \<and>
     (\<exists>cs. calls w' = tx_calls tx @ cs @ [CallRollback] \<and> CallCommit \<notin> set cs \<and> CallRollback \<notin> set cs)"

section \<open>Fakes for running the sequencer\<close>

text \<open>
  Deterministic collaborators, as the tests of the repository inject them: a hasher that
  tags and concatenates, node ids that never fail, a storage and a key manager that
  never fail, three queued leaves and an empty log.
\<close>

definition testHasher :: TreeHasher where
  "testHasher = \<lparr>HashEmpty = [227, 176], HashLeaf = (\<lambda>d. 0 # d), HashChildren = (\<lambda>l r. 1 # l @ r)\<rparr>"

definition testFns :: StorageFns where
  "testFns =
     \<lparr>NewNodeIDForTreeCoords = (\<lambda>depth index maxPathBits. Inr \<lparr>nid_depth = depth, nid_index = index\<rparr>),
      NodeID_String = (\<lambda>n. [char_of (unat (nid_depth n)), char_of (unat (nid_index n))])\<rparr>"

definition nextRevision :: "LogStore \<Rightarrow> int64" where
  "nextRevision st = (case roots st of [] \<Rightarrow> 1 | r # _ \<Rightarrow> TreeRevision r + 1)"

definition goodStorage :: LogStorage where
  "goodStorage =
     \<lparr>begin_error = None, write_revision = nextRevision, dequeue_error = None,
      latest_root_error = None, get_nodes_error = None, update_leaves_error = None,
      set_nodes_error = None, store_root_error = None, commit_error = None\<rparr>"

definition goodKeys :: KeyManager where
  "goodKeys = \<lparr>Signer_error = None, SignLogRoot = (\<lambda>root. Inr [7])\<rparr>"

definition testSequencer :: Sequencer where
  "testSequencer =
     \<lparr>hasher = testHasher, timeSource = 12345, logStorage = goodStorage, keyManager = goodKeys\<rparr>"

definition leafA :: LogLeaf where
  "leafA = \<lparr>LeafHash = [10], LeafValue = [1], ExtraData = [], SequenceNumber = - 1\<rparr>"

definition leafB :: LogLeaf where
  "leafB = \<lparr>LeafHash = [11], LeafValue = [2], ExtraData = [], SequenceNumber = - 1\<rparr>"

definition leafC :: LogLeaf where
  "leafC = \<lparr>LeafHash = [12], LeafValue = [3], ExtraData = [], SequenceNumber = - 1\<rparr>"

definition freshWorld :: world where
  "freshWorld =
     \<lparr>db = \<lparr>queue = [leafA, leafB, leafC], sequenced = [], nodes = [], roots = []\<rparr>, calls = []\<rparr>"

text \<open>A sequencer whose key manager has no signer to give.\<close>

definition keylessSequencer :: Sequencer where
  "keylessSequencer = testSequencer\<lparr>keyManager := goodKeys\<lparr>Signer_error := Some (Err ''no signer'')\<rparr>\<rparr>"

text \<open>A sequencer whose storage gives every transaction the write revision 5.\<close>

definition conflictingSequencer :: Sequencer where
  "conflictingSequencer = testSequencer\<lparr>logStorage := goodStorage\<lparr>write_revision := (\<lambda>_. 5)\<rparr>\<rparr>"

text \<open>A sequencer whose storage fails every commit.\<close>

definition commitFailingSequencer :: Sequencer where
  "commitFailingSequencer =
     testSequencer\<lparr>logStorage := goodStorage\<lparr>commit_error := Some (Err ''commit failed'')\<rparr>\<rparr>"

text \<open>An empty log with nothing queued.\<close>

definition idleWorld :: world where
  "idleWorld = \<lparr>db = \<lparr>queue = [], sequenced = [], nodes = [], roots = []\<rparr>, calls = []\<rparr>"

text \<open>Node ids that can be made at the leaf level only.\<close>

definition leafOnlyFns :: StorageFns where
  "leafOnlyFns =
     testFns\<lparr>NewNodeIDForTreeCoords :=
       (\<lambda>depth index maxPathBits.
          if depth = 0 then Inr \<lparr>nid_depth = depth, nid_index = index\<rparr>
          else Inl (Err ''depth/index combination out of range''))\<rparr>"

text \<open>
  A log whose latest root has tree size 1 and whose node rows are missing, with one leaf
  queued.
\<close>

definition gappedWorld :: world where
  "gappedWorld =
     \<lparr>db = \<lparr>queue = [leafB], sequenced = [leafA\<lparr>SequenceNumber := 0\<rparr>], nodes = [],
             roots = [\<lparr>TimestampNanos = 1, RootHash = [10], TreeSize = 1, Signature = Some [7],
                       LogId = [], TreeRevision = 1\<rparr>]\<rparr>,
      calls = []\<rparr>"

section \<open>Lemmas\<close>

lemmas fixture_defs =
  testHasher_def testFns_def nextRevision_def goodStorage_def goodKeys_def testSequencer_def
  leafA_def leafB_def leafC_def freshWorld_def

lemmas model_defs =
  SequenceBatch_def integrateBatch_def SignRoot_def Begin_def DequeueLeaves_def
  LatestSignedLogRoot_def initMerkleTreeFromStorage_def NewCompactMerkleTree_def
  WriteRevision_def sequenceLeaves_def AddLeafHash_def recordNode_def maxTreeDepth_def
  assignSequenceNumbers_def UpdateSequencedLeaves_def buildNodesFromNodeMap_def
  SetMerkleNodes_def newLogRootOf_def signRoot_def StoreSignedLogRoot_def Commit_def
  Rollback_def called_def zeroRoot_def CurrentRoot_def Size_def row_key_def

subsection \<open>The compact tree and the sequence numbers\<close>

lemma AddLeafHash_seq: "AddLeafHash mt h emit st = (seq, mt', st') \<Longrightarrow> seq = Size mt \<and> Size mt' = Size mt + 1"
  by (auto simp: AddLeafHash_def Size_def Let_def split: prod.splits)

lemma sequenceLeaves_loop_numbers:
  "sequenceLeaves_loop pkg mt nm seqs leaves = Inr (nm', seqs', mt') \<Longrightarrow>
   seqs' = seqs @ map (\<lambda>i. Size mt + of_nat i) [0..<length leaves] \<and>
   Size mt' = Size mt + of_nat (length leaves)"
proof (induction leaves arbitrary: mt nm seqs)
  case Nil
  then show ?case by simp
next
  case (Cons leaf leaves)
  obtain seq mt1 nm1 where a: "AddLeafHash mt (LeafHash leaf) (recordNode pkg) nm = (seq, mt1, nm1)"
    by (cases "AddLeafHash mt (LeafHash leaf) (recordNode pkg) nm") auto
  from AddLeafHash_seq [OF a] have s: "seq = Size mt" "Size mt1 = Size mt + 1" by auto
  from Cons.prems a obtain nid where
    n: "NewNodeIDForTreeCoords pkg 0 seq maxTreeDepth = Inr nid"
    and r: "sequenceLeaves_loop pkg mt1
       (AList.update (NodeID_String pkg nid) \<lparr>NodeID = nid, NodeHash = LeafHash leaf, NodeRevision = 0\<rparr> nm1)
       (seqs @ [seq]) leaves = Inr (nm', seqs', mt')"
    by (auto split: sum.splits)
  from Cons.IH [OF r] s show ?case
    by (simp add: upt_rec [of 0 "Suc (length leaves)"] map_Suc_upt [symmetric] del: upt_Suc add: algebra_simps)
qed

lemma sequenceLeaves_numbers:
  assumes "sequenceLeaves pkg mt leaves = Inr (nm, seqs, mt')"
  shows "seqs = map (\<lambda>i. Size mt + of_nat i) [0..<length leaves]"
    and "Size mt' = Size mt + of_nat (length leaves)"
    and "length seqs = length leaves"
  using sequenceLeaves_loop_numbers [of pkg mt "[]" "[]" leaves nm seqs mt'] assms
  by (simp_all add: sequenceLeaves_def)

lemma CurrentRoot_empty: "CurrentRoot (NewCompactMerkleTree h) = HashEmpty h"
  by (simp add: CurrentRoot_def NewCompactMerkleTree_def)

subsection \<open>Transactions\<close>

lemma DequeueLeaves_frame:
  "DequeueLeaves tx limit = (r, tx1) \<Longrightarrow>
   tx_base tx1 = tx_base tx \<and> tx_storage tx1 = tx_storage tx \<and> tx_revision tx1 = tx_revision tx \<and>
   tx_calls tx1 = tx_calls tx @ [CallDequeueLeaves limit]"
  by (auto simp: DequeueLeaves_def called_def Let_def split: option.splits)

lemma UpdateSequencedLeaves_frame:
  "UpdateSequencedLeaves tx ls = (r, tx1) \<Longrightarrow>
   tx_base tx1 = tx_base tx \<and> tx_storage tx1 = tx_storage tx \<and> tx_revision tx1 = tx_revision tx \<and>
   tx_calls tx1 = tx_calls tx @ [CallUpdateSequencedLeaves ls]"
  by (auto simp: UpdateSequencedLeaves_def called_def Let_def split: option.splits)

lemma SetMerkleNodes_frame:
  "SetMerkleNodes tx ns = (r, tx1) \<Longrightarrow>
   tx_base tx1 = tx_base tx \<and> tx_storage tx1 = tx_storage tx \<and> tx_revision tx1 = tx_revision tx \<and>
   tx_calls tx1 = tx_calls tx @ [CallSetMerkleNodes ns]"
  by (auto simp: SetMerkleNodes_def called_def Let_def split: option.splits if_splits)

lemma StoreSignedLogRoot_frame:
  "StoreSignedLogRoot tx root = (r, tx1) \<Longrightarrow>
   tx_base tx1 = tx_base tx \<and> tx_storage tx1 = tx_storage tx \<and> tx_revision tx1 = tx_revision tx \<and>
   tx_calls tx1 = tx_calls tx @ [CallStoreSignedLogRoot root]"
  by (auto simp: StoreSignedLogRoot_def called_def Let_def split: option.splits if_splits)

lemma Begin_frame:
  "Begin ls w = Inr tx \<Longrightarrow>
   tx_base tx = db w \<and> tx_work tx = db w \<and> tx_storage tx = ls \<and> tx_calls tx = calls w @ [CallBegin] \<and>
   tx_revision tx = write_revision ls (db w)"
  by (auto simp: Begin_def split: option.splits)

lemma LatestSignedLogRoot_fresh:
  "LatestSignedLogRoot tx = Inr currentRoot \<Longrightarrow> roots (tx_work tx) = [] \<Longrightarrow> currentRoot = zeroRoot"
  by (auto simp: LatestSignedLogRoot_def split: option.splits)

subsection \<open>Hydration\<close>

lemma initMerkleTreeFromStorage_size:
  "initMerkleTreeFromStorage pkg s currentRoot tx = Inr mt \<Longrightarrow> Size mt = TreeSize currentRoot"
  by (auto simp: initMerkleTreeFromStorage_def buildMerkleTreeFromStorageAtRoot_def
      NewCompactMerkleTreeWithState_def NewCompactMerkleTree_def Size_def Let_def
      split: if_splits sum.splits)

lemma fetchNode_not_one:
  assumes "NewNodeIDForTreeCoords pkg (of_int depth) index maxTreeDepth = Inr nodeId"
      and "GetMerkleNodes tx (TreeRevision root) [nodeId] = Inr ns"
      and "length ns \<noteq> 1"
  shows "fetchNode pkg root tx depth index = Inl (DidNotRetrieveOneNode (length ns) (TreeRevision root))"
  using assms by (simp add: fetchNode_def)

lemma fetch_spine_fails:
  "L \<in> set Ls \<Longrightarrow> bit sz L \<Longrightarrow> fetch (int L) (drop_bit L sz - 1) = Inl e \<Longrightarrow>
   \<exists>e'. fetch_spine fetch sz Ls = Inl e'"
  by (induction Ls) (auto split: sum.splits)

lemma hydration_fails:
  assumes "bit sz L" and "fetch (int L) (drop_bit L sz - 1) = Inl e"
  shows "\<exists>e'. NewCompactMerkleTreeWithState h sz fetch expectedRoot = Inl e'"
proof -
  have "L < 64"
    using assms(1) bit_imp_le_length [of sz L] by simp
  then have "L \<in> set [0..<64]" by simp
  with assms fetch_spine_fails [of L "[0..<64]" sz fetch e] show ?thesis
    by (auto simp: NewCompactMerkleTreeWithState_def)
qed

subsection \<open>How a batch can end\<close>

lemma rolledBack_Rollback: "rolledBack tx (Rollback tx)"
  by (simp add: rolledBack_def Rollback_def)

lemma rolledBack_step:
  "tx_base tx1 = tx_base tx \<Longrightarrow> tx_calls tx1 = tx_calls tx @ [c] \<Longrightarrow> c \<noteq> CallCommit \<Longrightarrow> c \<noteq> CallRollback \<Longrightarrow>
   rolledBack tx1 w' \<Longrightarrow> rolledBack tx w'"
  by (auto simp: rolledBack_def)

lemma integrateBatch_outcome:
  assumes len: "length seqs = length leaves"
      and run: "integrateBatch s tx cur W leaves nm seqs mt = (r, w')"
  shows "(\<exists>err. r = Returns (0, Some err) \<and> rolledBack tx w') \<or>
         (\<exists>tx2 tx3 tx4 sig targetNodes.
            UpdateSequencedLeaves tx (assignSequenceNumbers leaves seqs) = (None, tx2) \<and>
            buildNodesFromNodeMap nm W = Inr targetNodes \<and>
            SetMerkleNodes tx2 targetNodes = (None, tx3) \<and>
            signRoot s (newLogRootOf s mt cur W) = Inr sig \<and>
            StoreSignedLogRoot tx3 ((newLogRootOf s mt cur W)\<lparr>Signature := Some sig\<rparr>) = (None, tx4) \<and>
            (case Commit tx4 of (Some err, w) \<Rightarrow> (r, w') = (Returns (0, Some err), w)
                              | (None, w) \<Rightarrow> (r, w') = (Returns (int (length leaves), None), w)))"
proof -
  obtain u tx2 where u: "UpdateSequencedLeaves tx (assignSequenceNumbers leaves seqs) = (u, tx2)"
    by (cases "UpdateSequencedLeaves tx (assignSequenceNumbers leaves seqs)") auto
  note f2 = UpdateSequencedLeaves_frame [OF u]
  have rb2: "rolledBack tx2 w' \<Longrightarrow> rolledBack tx w'" for w'
    using f2 by (auto intro: rolledBack_step)
  show ?thesis
  proof (cases u)
    case (Some err)
    with run len u have "r = Returns (0, Some err)" "w' = Rollback tx2"
      by (auto simp: integrateBatch_def Let_def)
    then show ?thesis using rb2 rolledBack_Rollback by blast
  next
    case None
    obtain targetNodes where b: "buildNodesFromNodeMap nm W = Inr targetNodes"
      by (simp add: buildNodesFromNodeMap_def)
    obtain v tx3 where v: "SetMerkleNodes tx2 targetNodes = (v, tx3)"
      by (cases "SetMerkleNodes tx2 targetNodes") auto
    note f3 = SetMerkleNodes_frame [OF v]
    have rb3: "rolledBack tx3 w' \<Longrightarrow> rolledBack tx w'" for w'
      using f3 rb2 by (auto intro: rolledBack_step)
    show ?thesis
    proof (cases v)
      case (Some err)
      with run len u None b v have "r = Returns (0, Some err)" "w' = Rollback tx3"
        by (auto simp: integrateBatch_def Let_def)
      then show ?thesis using rb3 rolledBack_Rollback by blast
    next
      case vNone: None
      show ?thesis
      proof (cases "signRoot s (newLogRootOf s mt cur W)")
        case (Inl err)
        with run len u None b v vNone have "r = Returns (0, Some err)" "w' = Rollback tx3"
          by (auto simp: integrateBatch_def Let_def)
        then show ?thesis using rb3 rolledBack_Rollback by blast
      next
        case (Inr sig)
        obtain x tx4 where x: "StoreSignedLogRoot tx3 ((newLogRootOf s mt cur W)\<lparr>Signature := Some sig\<rparr>) = (x, tx4)"
          by (cases "StoreSignedLogRoot tx3 ((newLogRootOf s mt cur W)\<lparr>Signature := Some sig\<rparr>)") auto
        note f4 = StoreSignedLogRoot_frame [OF x]
        have rb4: "rolledBack tx4 w' \<Longrightarrow> rolledBack tx w'" for w'
          using f4 rb3 by (auto intro: rolledBack_step)
        show ?thesis
        proof (cases x)
          case (Some err)
          with run len u None b v vNone Inr x have "r = Returns (0, Some err)" "w' = Rollback tx4"
            by (auto simp: integrateBatch_def Let_def)
          then show ?thesis using rb4 rolledBack_Rollback by blast
        next
          case xNone: None
          from run len u None b v vNone Inr x xNone
          have "(case Commit tx4 of (Some err, w) \<Rightarrow> (r, w') = (Returns (0, Some err), w)
                              | (None, w) \<Rightarrow> (r, w') = (Returns (int (length leaves), None), w))"
            by (auto simp: integrateBatch_def Let_def split: prod.splits option.splits)
          moreover have "UpdateSequencedLeaves tx (assignSequenceNumbers leaves seqs) = (None, tx2)"
            using u None by simp
          moreover have "SetMerkleNodes tx2 targetNodes = (None, tx3)"
            using v vNone by simp
          moreover have "StoreSignedLogRoot tx3 ((newLogRootOf s mt cur W)\<lparr>Signature := Some sig\<rparr>) = (None, tx4)"
            using x xNone by simp
          ultimately show ?thesis using b Inr
            by (intro disjI2 exI [of _ tx2] exI [of _ tx3] exI [of _ tx4] exI [of _ sig] exI [of _ targetNodes] conjI)
        qed
      qed
    qed
  qed
qed


lemma SequenceBatch_outcome:
  assumes bg: "Begin (logStorage s) w = Inr tx"
      and dq: "DequeueLeaves tx limit = (dequeued, tx1)"
      and run: "SequenceBatch pkg s limit expiryFunc w = (r, w')"
  obtains (rolled_back) err where "r = Returns (0, Some err)" "rolledBack tx w'"
  | (empty_batch) cur where "dequeued = Inr []" "LatestSignedLogRoot tx1 = Inr cur"
      "expiryFunc cur \<Longrightarrow> r = Returns (0, fst (SignRoot pkg s (snd (Commit tx1)))) \<and> w' = snd (SignRoot pkg s (snd (Commit tx1)))"
      "\<not> expiryFunc cur \<Longrightarrow> r = Returns (0, None) \<and> w' = snd (Commit tx1)"
  | (integrated) leaves cur mt nm seqs mt' tx2 tx3 tx4 sig targetNodes where
      "dequeued = Inr leaves" "leaves \<noteq> []" "LatestSignedLogRoot tx1 = Inr cur"
      "initMerkleTreeFromStorage pkg s cur tx1 = Inr mt"
      "WriteRevision tx1 = TreeRevision cur + 1"
      "sequenceLeaves pkg mt leaves = Inr (nm, seqs, mt')"
      "UpdateSequencedLeaves tx1 (assignSequenceNumbers leaves seqs) = (None, tx2)"
      "buildNodesFromNodeMap nm (WriteRevision tx1) = Inr targetNodes"
      "SetMerkleNodes tx2 targetNodes = (None, tx3)"
      "signRoot s (newLogRootOf s mt' cur (WriteRevision tx1)) = Inr sig"
      "StoreSignedLogRoot tx3 ((newLogRootOf s mt' cur (WriteRevision tx1))\<lparr>Signature := Some sig\<rparr>) = (None, tx4)"
      "case Commit tx4 of (Some err, w) \<Rightarrow> (r, w') = (Returns (0, Some err), w)
                        | (None, w) \<Rightarrow> (r, w') = (Returns (int (length leaves), None), w)"
proof -
  note f1 = DequeueLeaves_frame [OF dq]
  have rb1: "rolledBack tx1 w' \<Longrightarrow> rolledBack tx w'" for w'
    using f1 by (auto intro: rolledBack_step)
  have rbR: "rolledBack tx (Rollback tx1)"
    using rb1 rolledBack_Rollback by blast
  show thesis
  proof (cases dequeued)
    case (Inl err)
    with bg dq run have "r = Returns (0, Some err)" "w' = Rollback tx1"
      by (auto simp: SequenceBatch_def)
    then show thesis using rolled_back rbR by blast
  next
    case (Inr leaves)
    note dl = this
    show thesis
    proof (cases "LatestSignedLogRoot tx1")
      case (Inl err)
      with bg dq dl run have "r = Returns (0, Some err)" "w' = Rollback tx1"
        by (auto simp: SequenceBatch_def)
      then show thesis using rolled_back rbR by blast
    next
      case (Inr cur)
      note lr = this
      show thesis
      proof (cases "leaves = []")
        case True
        have "expiryFunc cur \<Longrightarrow> r = Returns (0, fst (SignRoot pkg s (snd (Commit tx1)))) \<and> w' = snd (SignRoot pkg s (snd (Commit tx1)))"
          using bg dq dl lr run True by (auto simp: SequenceBatch_def Let_def split: prod.splits)
        moreover have "\<not> expiryFunc cur \<Longrightarrow> r = Returns (0, None) \<and> w' = snd (Commit tx1)"
          using bg dq dl lr run True by (auto simp: SequenceBatch_def Let_def split: prod.splits)
        ultimately show thesis using empty_batch dl lr True by blast
      next
        case False
        note ne = this
        show thesis
        proof (cases "initMerkleTreeFromStorage pkg s cur tx1")
          case (Inl err)
          with bg dq dl lr ne run have "r = Returns (0, Some err)" "w' = Rollback tx1"
            by (auto simp: SequenceBatch_def)
          then show thesis using rolled_back rbR by blast
        next
          case (Inr mt)
          note im = this
          show thesis
          proof (cases "WriteRevision tx1 = TreeRevision cur + 1")
            case False
            with bg dq dl lr ne im run
            have "r = Returns (0, Some (WriteRevisionMismatch (WriteRevision tx1) (TreeRevision cur + 1)))"
              "w' = Rollback tx1"
              by (auto simp: SequenceBatch_def Let_def)
            then show thesis using rolled_back rbR by blast
          next
            case True
            note wr = this
            show thesis
            proof (cases "sequenceLeaves pkg mt leaves")
              case (Inl err)
              with bg dq dl lr ne im wr run have "r = Returns (0, Some err)" "w' = Rollback tx1"
                by (auto simp: SequenceBatch_def Let_def)
              then show thesis using rolled_back rbR by blast
            next
              case (Inr res)
              obtain nm seqs mt' where res: "res = (nm, seqs, mt')" by (cases res) auto
              note sl = Inr [unfolded res]
              have len: "length seqs = length leaves"
                using sequenceLeaves_numbers(3) [OF sl] .
              have ib: "integrateBatch s tx1 cur (WriteRevision tx1) leaves nm seqs mt' = (r, w')"
                using bg dq dl lr ne im wr sl run by (auto simp: SequenceBatch_def Let_def)
              from integrateBatch_outcome [OF len ib] show thesis
              proof (elim disjE exE conjE)
                fix err assume "r = Returns (0, Some err)" "rolledBack tx1 w'"
                then show thesis using rolled_back rb1 by blast
              next
                fix tx2 tx3 tx4 sig targetNodes
                assume a: "UpdateSequencedLeaves tx1 (assignSequenceNumbers leaves seqs) = (None, tx2)"
                  "buildNodesFromNodeMap nm (WriteRevision tx1) = Inr targetNodes"
                  "SetMerkleNodes tx2 targetNodes = (None, tx3)"
                  "signRoot s (newLogRootOf s mt' cur (WriteRevision tx1)) = Inr sig"
                  "StoreSignedLogRoot tx3 ((newLogRootOf s mt' cur (WriteRevision tx1))\<lparr>Signature := Some sig\<rparr>) = (None, tx4)"
                  "case Commit tx4 of (Some err, w) \<Rightarrow> (r, w') = (Returns (0, Some err), w)
                        | (None, w) \<Rightarrow> (r, w') = (Returns (int (length leaves), None), w)"
                show thesis by (rule integrated [OF dl ne lr im wr sl a])
              qed
            qed
          qed
        qed
      qed
    qed
  qed
qed

subsection \<open>What the writes of a transaction leave in its working copy\<close>

lemma DequeueLeaves_work:
  "DequeueLeaves tx limit = (Inr leaves, tx1) \<Longrightarrow>
   leaves = take (nat limit) (queue (tx_work tx)) \<and>
   queue (tx_work tx1) = drop (nat limit) (queue (tx_work tx)) \<and>
   sequenced (tx_work tx1) = sequenced (tx_work tx) \<and>
   nodes (tx_work tx1) = nodes (tx_work tx) \<and> roots (tx_work tx1) = roots (tx_work tx)"
  by (auto simp: DequeueLeaves_def called_def Let_def split: option.splits)

lemma UpdateSequencedLeaves_work:
  "UpdateSequencedLeaves tx ls = (None, tx1) \<Longrightarrow>
   queue (tx_work tx1) = queue (tx_work tx) \<and>
   sequenced (tx_work tx1) = sequenced (tx_work tx) @ ls \<and>
   nodes (tx_work tx1) = nodes (tx_work tx) \<and> roots (tx_work tx1) = roots (tx_work tx)"
  by (auto simp: UpdateSequencedLeaves_def called_def Let_def split: option.splits)

lemma SetMerkleNodes_work:
  "SetMerkleNodes tx ns = (None, tx1) \<Longrightarrow>
   queue (tx_work tx1) = queue (tx_work tx) \<and>
   sequenced (tx_work tx1) = sequenced (tx_work tx) \<and>
   nodes (tx_work tx1) = nodes (tx_work tx) @ ns \<and> roots (tx_work tx1) = roots (tx_work tx)"
  by (auto simp: SetMerkleNodes_def called_def Let_def split: option.splits if_splits)

lemma StoreSignedLogRoot_work:
  "StoreSignedLogRoot tx root = (None, tx1) \<Longrightarrow>
   queue (tx_work tx1) = queue (tx_work tx) \<and>
   sequenced (tx_work tx1) = sequenced (tx_work tx) \<and>
   nodes (tx_work tx1) = nodes (tx_work tx) \<and> roots (tx_work tx1) = root # roots (tx_work tx)"
  by (auto simp: StoreSignedLogRoot_def called_def Let_def split: option.splits if_splits)

lemma Commit_None:
  "Commit tx = (None, w') \<Longrightarrow> db w' = tx_work tx \<and> calls w' = tx_calls tx @ [CallCommit]"
  by (auto simp: Commit_def split: option.splits)

lemma Commit_calls:
  "Commit tx = (e, w') \<Longrightarrow> calls w' = tx_calls tx @ [CallCommit]"
  by (auto simp: Commit_def split: option.splits)

lemma assign_prefix:
  "k \<le> length leaves \<Longrightarrow> length seqs = length leaves \<Longrightarrow>
   fold (\<lambda>index ls. ls[index := (ls ! index)\<lparr>SequenceNumber := seqs ! index\<rparr>]) [0..<k] leaves
   = map (\<lambda>(l, n). l\<lparr>SequenceNumber := n\<rparr>) (zip (take k leaves) (take k seqs)) @ drop k leaves"
proof (induction k)
  case 0
  then show ?case by simp
next
  case (Suc k)
  then have k: "k < length leaves" "k < length seqs" by auto
  have d: "drop k leaves = leaves ! k # drop (Suc k) leaves"
    using k by (simp add: Cons_nth_drop_Suc)
  show ?case using Suc k
    by (simp add: take_Suc_conv_app_nth d nth_append list_update_append)
qed

lemma assign_zip:
  "length seqs = length leaves \<Longrightarrow>
   assignSequenceNumbers leaves seqs = map (\<lambda>(l, n). l\<lparr>SequenceNumber := n\<rparr>) (zip leaves seqs)"
  using assign_prefix [of "length leaves" leaves seqs] by (simp add: assignSequenceNumbers_def)

text \<open>The run of a batch that is not empty and ends without an error.\<close>

lemma SequenceBatch_success:
  assumes bg: "Begin (logStorage s) w = Inr tx"
      and dq: "DequeueLeaves tx limit = (Inr leaves, tx1)"
      and ne: "leaves \<noteq> []"
      and lr: "LatestSignedLogRoot tx1 = Inr cur"
      and run: "SequenceBatch pkg s limit expiryFunc w = (Returns (n, None), w')"
  obtains mt nm seqs mt' tx2 tx3 tx4 sig targetNodes where
      "initMerkleTreeFromStorage pkg s cur tx1 = Inr mt"
      "WriteRevision tx1 = TreeRevision cur + 1"
      "sequenceLeaves pkg mt leaves = Inr (nm, seqs, mt')"
      "UpdateSequencedLeaves tx1 (assignSequenceNumbers leaves seqs) = (None, tx2)"
      "buildNodesFromNodeMap nm (WriteRevision tx1) = Inr targetNodes"
      "SetMerkleNodes tx2 targetNodes = (None, tx3)"
      "signRoot s (newLogRootOf s mt' cur (WriteRevision tx1)) = Inr sig"
      "StoreSignedLogRoot tx3 ((newLogRootOf s mt' cur (WriteRevision tx1))\<lparr>Signature := Some sig\<rparr>) = (None, tx4)"
      "Commit tx4 = (None, w')" "n = int (length leaves)"
  using bg dq run
proof (cases rule: SequenceBatch_outcome)
  case (rolled_back err)
  then show ?thesis by simp
next
  case (empty_batch cur')
  with ne show ?thesis by simp
next
  case (integrated leaves' cur' mt nm seqs mt' tx2 tx3 tx4 sig targetNodes)
  from integrated(1,3) lr have eq: "leaves' = leaves" "cur' = cur" by simp_all
  from integrated(12) have "Commit tx4 = (None, w') \<and> n = int (length leaves)"
    unfolding eq by (cases "Commit tx4") (auto split: option.splits)
  then show ?thesis
    using that integrated(4-11) [unfolded eq] by blast
qed

section \<open>The claims\<close>

subsection \<open>C1: a failure before the final commit rolls the transaction back\<close>




subsection \<open>C2: the root a successful batch stores\<close>

text \<open>
  C2. A \<open>SequenceBatch\<close> that dequeues leaves, not none, and returns no error has stored
  a new root at the head of the roots of the committed state: its log id is the current
  root's; its tree size is the size of the hydrated tree after all dequeued leaves were
  appended, which is the current root's tree size plus their number (in 64 bits); its
  root hash is the current root of that tree; its tree revision is the write revision of
  the transaction, which is the current root's tree revision plus one (in 64 bits). The
  count returned is the number of dequeued leaves.
\<close>

theorem SequenceBatch_stores_new_root:
  assumes "Begin (logStorage s) w = Inr tx"
      and "DequeueLeaves tx limit = (Inr leaves, tx1)"
      and "leaves \<noteq> []"
      and "LatestSignedLogRoot tx1 = Inr currentRoot"
      and "SequenceBatch pkg s limit expiryFunc w = (Returns (n, None), w')"
  shows "\<exists>merkleTree nodeMap sequenceNumbers merkleTree' sth.
           initMerkleTreeFromStorage pkg s currentRoot tx1 = Inr merkleTree \<and>
           sequenceLeaves pkg merkleTree leaves = Inr (nodeMap, sequenceNumbers, merkleTree') \<and>
           roots (db w') = sth # roots (db w) \<and>
           LogId sth = LogId currentRoot \<and>
           TreeSize sth = Size merkleTree' \<and>
           Size merkleTree' = TreeSize currentRoot + of_nat (length leaves) \<and>
           RootHash sth = CurrentRoot merkleTree' \<and>
           TreeRevision sth = WriteRevision tx1 \<and>
           WriteRevision tx1 = TreeRevision currentRoot + 1 \<and>
           n = int (length leaves)"
  using assms
proof (cases rule: SequenceBatch_success)
  case (1 mt nm seqs mt' tx2 tx3 tx4 sig targetNodes)
  let ?sth = "(newLogRootOf s mt' currentRoot (WriteRevision tx1))\<lparr>Signature := Some sig\<rparr>"
  have "roots (db w') = ?sth # roots (tx_work tx1)"
    using Commit_None [OF 1(9)] StoreSignedLogRoot_work [OF 1(8)] SetMerkleNodes_work [OF 1(6)]
      UpdateSequencedLeaves_work [OF 1(4)] by simp
  then have r: "roots (db w') = ?sth # roots (db w)"
    using DequeueLeaves_work [OF assms(2)] Begin_frame [OF assms(1)] by simp
  have sz: "Size mt' = TreeSize currentRoot + of_nat (length leaves)"
    using sequenceLeaves_numbers(2) [OF 1(3)] initMerkleTreeFromStorage_size [OF 1(1)] by simp
  show ?thesis
    using 1(1,2,3,10) r sz
    by (intro exI [of _ mt] exI [of _ nm] exI [of _ seqs] exI [of _ mt'] exI [of _ ?sth])
       (simp add: newLogRootOf_def)
qed

text \<open>Witness: a batch of two of the three queued leaves on an empty log.\<close>

theorem SequenceBatch_stores_new_root_witness:
  "fst (SequenceBatch testFns testSequencer 2 (\<lambda>_. False) freshWorld) = Returns (2, None) \<and>
   (\<exists>sth. roots (db (snd (SequenceBatch testFns testSequencer 2 (\<lambda>_. False) freshWorld)))
            = sth # roots (db freshWorld) \<and>
          LogId sth = LogId zeroRoot \<and> TreeSize sth = 2 \<and> RootHash sth = [1, 10, 11] \<and>
          TreeRevision sth = 1)"
proof -
  obtain tx where b: "Begin (logStorage testSequencer) freshWorld = Inr tx"
    by (simp add: Begin_def fixture_defs)
  from b have tx: "tx = \<lparr>tx_storage = goodStorage, tx_base = db freshWorld, tx_work = db freshWorld,
      tx_revision = 1, tx_calls = [CallBegin]\<rparr>"
    by (simp add: Begin_def fixture_defs)
  obtain tx1 where d: "DequeueLeaves tx 2 = (Inr [leafA, leafB], tx1)"
    by (simp add: tx DequeueLeaves_def called_def fixture_defs)
  from d have tx1: "tx1 = tx\<lparr>tx_calls := [CallBegin, CallDequeueLeaves 2],
                       tx_work := (db freshWorld)\<lparr>queue := [leafC]\<rparr>\<rparr>"
    by (auto simp: tx DequeueLeaves_def called_def fixture_defs)
  have lr: "LatestSignedLogRoot tx1 = Inr zeroRoot"
    by (simp add: tx1 tx LatestSignedLogRoot_def fixture_defs)
  obtain w' where run: "SequenceBatch testFns testSequencer 2 (\<lambda>_. False) freshWorld = (Returns (2, None), w')"
    by (simp add: model_defs fixture_defs Let_def)
  from SequenceBatch_stores_new_root [OF b d _ lr run]
  obtain mt nm seqs mt' sth where
    im: "initMerkleTreeFromStorage testFns testSequencer zeroRoot tx1 = Inr mt"
    and sl: "sequenceLeaves testFns mt [leafA, leafB] = Inr (nm, seqs, mt')"
    and st: "roots (db w') = sth # roots (db freshWorld)" "LogId sth = LogId zeroRoot"
      "TreeSize sth = Size mt'" "Size mt' = TreeSize zeroRoot + of_nat (length [leafA, leafB])"
      "RootHash sth = CurrentRoot mt'" "TreeRevision sth = WriteRevision tx1"
      "WriteRevision tx1 = TreeRevision zeroRoot + 1"
    by auto
  from im have mt: "mt = NewCompactMerkleTree testHasher"
    by (simp add: initMerkleTreeFromStorage_def zeroRoot_def testSequencer_def)
  from sl have "CurrentRoot mt' = [1, 10, 11]"
    by (auto simp: mt model_defs fixture_defs Let_def)
  with st have "roots (db w') = sth # roots (db freshWorld) \<and>
          LogId sth = LogId zeroRoot \<and> TreeSize sth = 2 \<and> RootHash sth = [1, 10, 11] \<and>
          TreeRevision sth = 1"
    by (simp add: zeroRoot_def)
  then show ?thesis
    by (auto simp: run)
qed

subsection \<open>C3: sequence numbers follow the order of the dequeued leaves\<close>

text \<open>
  C3. In a batch that is sequenced and committed, the sequence numbers the compact tree
  returns are the tree size before the batch (the current root's tree size), that plus
  one, and so on, one per dequeued leaf; the leaf at place \<open>i\<close> of the dequeued list is
  given the number at place \<open>i\<close>, all else in it unchanged; and the leaves so numbered
  are what the batch adds to the sequenced leaves of the committed state, in the order
  of the dequeue.
\<close>

theorem sequence_numbers_follow_dequeue_order:
  assumes "Begin (logStorage s) w = Inr tx"
      and "DequeueLeaves tx limit = (Inr leaves, tx1)"
      and "leaves \<noteq> []"
      and "LatestSignedLogRoot tx1 = Inr currentRoot"
      and "SequenceBatch pkg s limit expiryFunc w = (Returns (n, None), w')"
  shows "\<exists>merkleTree nodeMap sequenceNumbers merkleTree'.
           initMerkleTreeFromStorage pkg s currentRoot tx1 = Inr merkleTree \<and>
           sequenceLeaves pkg merkleTree leaves = Inr (nodeMap, sequenceNumbers, merkleTree') \<and>
           Size merkleTree = TreeSize currentRoot \<and>
           sequenceNumbers = map (\<lambda>i. Size merkleTree + of_nat i) [0..<length leaves] \<and>
           assignSequenceNumbers leaves sequenceNumbers
             = map (\<lambda>i. (leaves ! i)\<lparr>SequenceNumber := sequenceNumbers ! i\<rparr>) [0..<length leaves] \<and>
           sequenced (db w') = sequenced (db w) @ assignSequenceNumbers leaves sequenceNumbers"
  using assms
proof (cases rule: SequenceBatch_success)
  case (1 mt nm seqs mt' tx2 tx3 tx4 sig targetNodes)
  note len = sequenceLeaves_numbers(3) [OF 1(3)]
  have "sequenced (db w') = sequenced (tx_work tx1) @ assignSequenceNumbers leaves seqs"
    using Commit_None [OF 1(9)] StoreSignedLogRoot_work [OF 1(8)] SetMerkleNodes_work [OF 1(6)]
      UpdateSequencedLeaves_work [OF 1(4)] by simp
  then have sq: "sequenced (db w') = sequenced (db w) @ assignSequenceNumbers leaves seqs"
    using DequeueLeaves_work [OF assms(2)] Begin_frame [OF assms(1)] by simp
  have az: "assignSequenceNumbers leaves seqs
             = map (\<lambda>i. (leaves ! i)\<lparr>SequenceNumber := seqs ! i\<rparr>) [0..<length leaves]"
    unfolding assign_zip [OF len] using len
    by (intro nth_equalityI) simp_all
  show ?thesis
    using 1(1,3) initMerkleTreeFromStorage_size [OF 1(1)] sequenceLeaves_numbers(1) [OF 1(3)] sq az
    by blast
qed

text \<open>Witness: a batch of all three queued leaves on an empty log.\<close>

theorem sequence_numbers_follow_dequeue_order_witness:
  "fst (SequenceBatch testFns testSequencer 3 (\<lambda>_. False) freshWorld) = Returns (3, None) \<and>
   sequenced (db (snd (SequenceBatch testFns testSequencer 3 (\<lambda>_. False) freshWorld)))
     = [leafA\<lparr>SequenceNumber := 0\<rparr>, leafB\<lparr>SequenceNumber := 1\<rparr>, leafC\<lparr>SequenceNumber := 2\<rparr>]"
proof -
  obtain tx where b: "Begin (logStorage testSequencer) freshWorld = Inr tx"
    by (simp add: Begin_def fixture_defs)
  from b have tx: "tx = \<lparr>tx_storage = goodStorage, tx_base = db freshWorld, tx_work = db freshWorld,
      tx_revision = 1, tx_calls = [CallBegin]\<rparr>"
    by (simp add: Begin_def fixture_defs)
  obtain tx1 where d: "DequeueLeaves tx 3 = (Inr [leafA, leafB, leafC], tx1)"
    by (simp add: tx DequeueLeaves_def called_def fixture_defs)
  from d have tx1: "tx1 = tx\<lparr>tx_calls := [CallBegin, CallDequeueLeaves 3],
                       tx_work := (db freshWorld)\<lparr>queue := []\<rparr>\<rparr>"
    by (auto simp: tx DequeueLeaves_def called_def fixture_defs)
  have lr: "LatestSignedLogRoot tx1 = Inr zeroRoot"
    by (simp add: tx1 tx LatestSignedLogRoot_def fixture_defs)
  obtain w' where run: "SequenceBatch testFns testSequencer 3 (\<lambda>_. False) freshWorld = (Returns (3, None), w')"
    by (simp add: model_defs fixture_defs Let_def)
  from sequence_numbers_follow_dequeue_order [OF b d _ lr run]
  obtain mt nm seqs mt' where
    sl: "sequenceLeaves testFns mt [leafA, leafB, leafC] = Inr (nm, seqs, mt')"
    and sz: "Size mt = TreeSize zeroRoot"
    and sn: "seqs = map (\<lambda>i. Size mt + of_nat i) [0..<length [leafA, leafB, leafC]]"
    and az: "assignSequenceNumbers [leafA, leafB, leafC] seqs
             = map (\<lambda>i. ([leafA, leafB, leafC] ! i)\<lparr>SequenceNumber := seqs ! i\<rparr>) [0..<length [leafA, leafB, leafC]]"
    and sq: "sequenced (db w') = sequenced (db freshWorld) @ assignSequenceNumbers [leafA, leafB, leafC] seqs"
    by auto
  have u: "[0..<3] = [0, 1, 2]"
    by (simp add: upt_rec)
  from sz sn have "seqs = [0, 1, 2]"
    by (simp add: zeroRoot_def u)
  with az sq have "sequenced (db w')
     = [leafA\<lparr>SequenceNumber := 0\<rparr>, leafB\<lparr>SequenceNumber := 1\<rparr>, leafC\<lparr>SequenceNumber := 2\<rparr>]"
    by (simp add: u freshWorld_def)
  then show ?thesis
    by (simp add: run)
qed

subsection \<open>C4: a write revision that is not the next one\<close>

text \<open>
  C4. When the batch is not empty and the write revision of the transaction is not the
  current root's tree revision plus one, \<open>SequenceBatch\<close> returns the count 0 with an
  error, and the only calls it made on the transaction are the dequeue and the rollback:
  no leaves, nodes or root were written, and the committed state is unchanged. The error
  is the revision mismatch whenever the hydration of the tree, which comes before the
  check, succeeded, and the error of the hydration otherwise.
\<close>

theorem SequenceBatch_revision_conflict:
  assumes "Begin (logStorage s) w = Inr tx"
      and "DequeueLeaves tx limit = (Inr leaves, tx1)"
      and "leaves \<noteq> []"
      and "LatestSignedLogRoot tx1 = Inr currentRoot"
      and "WriteRevision tx1 \<noteq> TreeRevision currentRoot + 1"
  shows "SequenceBatch pkg s limit expiryFunc w =
           (Returns (0, Some (case initMerkleTreeFromStorage pkg s currentRoot tx1 of
                                Inl err \<Rightarrow> err
                              | Inr merkleTree \<Rightarrow>
                                  WriteRevisionMismatch (WriteRevision tx1) (TreeRevision currentRoot + 1))),
            \<lparr>db = db w, calls = calls w @ [CallBegin, CallDequeueLeaves limit, CallRollback]\<rparr>)"
proof -
  have "Rollback tx1 = \<lparr>db = db w, calls = calls w @ [CallBegin, CallDequeueLeaves limit, CallRollback]\<rparr>"
    using Begin_frame [OF assms(1)] DequeueLeaves_frame [OF assms(2)] by (simp add: Rollback_def)
  then show ?thesis
    using assms by (simp add: SequenceBatch_def Let_def split: sum.splits)
qed

text \<open>Witness: an empty log, where the next revision is 1, and a write revision of 5.\<close>

theorem SequenceBatch_revision_conflict_witness:
  "SequenceBatch testFns conflictingSequencer 2 (\<lambda>_. False) freshWorld =
     (Returns (0, Some (WriteRevisionMismatch 5 1)),
      \<lparr>db = db freshWorld, calls = [CallBegin, CallDequeueLeaves 2, CallRollback]\<rparr>)"
proof -
  obtain tx where b: "Begin (logStorage conflictingSequencer) freshWorld = Inr tx"
    by (simp add: Begin_def fixture_defs conflictingSequencer_def)
  from b have tx: "tx = \<lparr>tx_storage = goodStorage\<lparr>write_revision := (\<lambda>_. 5)\<rparr>, tx_base = db freshWorld,
      tx_work = db freshWorld, tx_revision = 5, tx_calls = [CallBegin]\<rparr>"
    by (simp add: Begin_def fixture_defs conflictingSequencer_def)
  obtain tx1 where d: "DequeueLeaves tx 2 = (Inr [leafA, leafB], tx1)"
    by (simp add: tx DequeueLeaves_def called_def fixture_defs)
  from d have tx1: "tx1 = tx\<lparr>tx_calls := [CallBegin, CallDequeueLeaves 2],
                       tx_work := (db freshWorld)\<lparr>queue := [leafC]\<rparr>\<rparr>"
    by (auto simp: tx DequeueLeaves_def called_def fixture_defs)
  have lr: "LatestSignedLogRoot tx1 = Inr zeroRoot"
    by (simp add: tx1 tx LatestSignedLogRoot_def fixture_defs)
  have wr: "WriteRevision tx1 \<noteq> TreeRevision zeroRoot + 1"
    by (simp add: tx1 tx WriteRevision_def zeroRoot_def)
  have im: "initMerkleTreeFromStorage testFns conflictingSequencer zeroRoot tx1 = Inr (NewCompactMerkleTree testHasher)"
    by (simp add: initMerkleTreeFromStorage_def zeroRoot_def conflictingSequencer_def testSequencer_def)
  have v: "WriteRevision tx1 = 5" "TreeRevision zeroRoot + 1 = 1" "calls freshWorld = []"
    by (simp_all add: tx1 tx WriteRevision_def zeroRoot_def freshWorld_def)
  show ?thesis
    using SequenceBatch_revision_conflict [OF b d _ lr wr, of testFns "\<lambda>_. False"]
    by (simp add: im v)
qed

subsection \<open>C5: a commit that fails\<close>

text \<open>
  C5. The claim is that a failure of \<open>Commit\<close> is returned to the caller in both places
  where \<open>SequenceBatch\<close> commits. After the new root is stored it is (line 281). In the
  branch of the empty batch it is not (line 180 drops what \<open>Commit\<close> returns): with
  nothing queued, a root that has not expired and a storage whose commit fails,
  \<open>SequenceBatch\<close> returns the count 0 and no error. The same storage with two queued
  leaves shows the other place returning the error.
\<close>

theorem empty_batch_commit_error_is_dropped:
  "commit_error (logStorage commitFailingSequencer) = Some (Err ''commit failed'') \<and>
   SequenceBatch testFns commitFailingSequencer 10 (\<lambda>_. False) idleWorld
     = (Returns (0, None),
        \<lparr>db = db idleWorld, calls = [CallBegin, CallDequeueLeaves 10, CallCommit]\<rparr>) \<and>
   fst (SequenceBatch testFns commitFailingSequencer 2 (\<lambda>_. False) freshWorld)
     = Returns (0, Some (Err ''commit failed''))"
  by (simp add: model_defs fixture_defs commitFailingSequencer_def idleWorld_def Let_def)

subsection \<open>C6: an error while recording an emitted node\<close>

text \<open>
  C6. The claim is that every triple \<open>AddLeafHash\<close> emits is put into the node map and
  that an error met while recording one is returned. The callback of \<open>sequenceLeaves\<close>
  returns without a word when the node id cannot be made (line 88), while the same error
  for the leaf-level node is returned (line 98). Appending the second leaf emits the
  triple of depth 1, index 0; with node ids that can be made at depth 0 only,
  \<open>sequenceLeaves\<close> returns no error and a node map with the two leaf-level nodes only,
  and \<open>SequenceBatch\<close> commits the batch without the node of depth 1.
\<close>

theorem emitted_node_error_is_dropped:
  "AddLeafHash \<lparr>ct_hasher = testHasher, ct_size = 1, ct_spine = [[10]]\<rparr> [11]
      (\<lambda>depth index hash emitted. emitted @ [(depth, index, hash)]) []
     = (1, \<lparr>ct_hasher = testHasher, ct_size = 2, ct_spine = [[1, 10, 11]]\<rparr>, [(1, 0, [1, 10, 11])]) \<and>
   NewNodeIDForTreeCoords leafOnlyFns 1 0 maxTreeDepth = Inl (Err ''depth/index combination out of range'') \<and>
   (\<exists>nodeMap.
      sequenceLeaves leafOnlyFns (NewCompactMerkleTree testHasher) [leafA, leafB]
        = Inr (nodeMap, [0, 1], \<lparr>ct_hasher = testHasher, ct_size = 2, ct_spine = [[1, 10, 11]]\<rparr>) \<and>
      map snd nodeMap
        = [\<lparr>NodeID = \<lparr>nid_depth = 0, nid_index = 0\<rparr>, NodeHash = [10], NodeRevision = 0\<rparr>,
           \<lparr>NodeID = \<lparr>nid_depth = 0, nid_index = 1\<rparr>, NodeHash = [11], NodeRevision = 0\<rparr>]) \<and>
   fst (SequenceBatch leafOnlyFns testSequencer 2 (\<lambda>_. False) freshWorld) = Returns (2, None) \<and>
   nodes (db (snd (SequenceBatch leafOnlyFns testSequencer 2 (\<lambda>_. False) freshWorld)))
     = [\<lparr>NodeID = \<lparr>nid_depth = 0, nid_index = 0\<rparr>, NodeHash = [10], NodeRevision = 1\<rparr>,
        \<lparr>NodeID = \<lparr>nid_depth = 0, nid_index = 1\<rparr>, NodeHash = [11], NodeRevision = 1\<rparr>]"
  by (simp add: model_defs fixture_defs leafOnlyFns_def Let_def)

subsection \<open>C7: hydration needs exactly one node for each id\<close>

text \<open>
  C7. Let the tree size of the root have the bit of level \<open>L\<close> set, so that the
  hydration asks for the node of that level, and let \<open>GetMerkleNodes\<close> answer that one
  id with a list that is not of length 1 (\<^verbatim>\<open>nil\<close> and the empty list have length 0).
  Then the hydration returns an error, and so does \<open>initMerkleTreeFromStorage\<close>; a
  \<open>SignRoot\<close> that hydrates from this root returns an error after the calls
  \<open>Begin\<close>, \<open>Rollback\<close>, and a \<open>SequenceBatch\<close> with a batch that is not empty returns 0
  and an error after the calls \<open>Begin\<close>, \<open>DequeueLeaves\<close>, \<open>Rollback\<close>; both leave the
  committed state as it was.
\<close>

theorem hydration_needs_exactly_one_node:
  assumes "bit (TreeSize root) L"
      and "NewNodeIDForTreeCoords pkg (of_nat L) (drop_bit L (TreeSize root) - 1) maxTreeDepth = Inr nodeId"
      and "GetMerkleNodes tx (TreeRevision root) [nodeId] = Inr ns"
      and "length ns \<noteq> 1"
  shows "(\<exists>err. buildMerkleTreeFromStorageAtRoot pkg s root tx = Inl err) \<and>
         (\<exists>err. initMerkleTreeFromStorage pkg s root tx = Inl err) \<and>
         (Begin (logStorage s) w = Inr tx \<and> LatestSignedLogRoot tx = Inr root \<longrightarrow>
            (\<exists>err. SignRoot pkg s w
                     = (Some err, \<lparr>db = db w, calls = calls w @ [CallBegin, CallRollback]\<rparr>))) \<and>
         (Begin (logStorage s) w = Inr tx0 \<and> DequeueLeaves tx0 limit = (Inr leaves, tx) \<and>
          leaves \<noteq> [] \<and> LatestSignedLogRoot tx = Inr root \<longrightarrow>
            (\<exists>err. SequenceBatch pkg s limit expiryFunc w
                     = (Returns (0, Some err),
                        \<lparr>db = db w, calls = calls w @ [CallBegin, CallDequeueLeaves limit, CallRollback]\<rparr>)))"
proof -
  have f: "fetchNode pkg root tx (int L) (drop_bit L (TreeSize root) - 1)
             = Inl (DidNotRetrieveOneNode (length ns) (TreeRevision root))"
    using assms(2-4) by (intro fetchNode_not_one) simp_all
  from assms(1) f
    hydration_fails [of "TreeSize root" L "fetchNode pkg root tx" _ "hasher s" "RootHash root"]
  obtain e where b: "buildMerkleTreeFromStorageAtRoot pkg s root tx = Inl e"
    by (auto simp: buildMerkleTreeFromStorageAtRoot_def)
  have nz: "TreeSize root \<noteq> 0"
    using assms(1) by auto
  have i: "initMerkleTreeFromStorage pkg s root tx = Inl e"
    using b nz by (simp add: initMerkleTreeFromStorage_def)
  have sr: "SignRoot pkg s w = (Some e, \<lparr>db = db w, calls = calls w @ [CallBegin, CallRollback]\<rparr>)"
    if "Begin (logStorage s) w = Inr tx" "LatestSignedLogRoot tx = Inr root"
    using that i Begin_frame [OF that(1)] by (simp add: SignRoot_def Rollback_def)
  have sb: "SequenceBatch pkg s limit expiryFunc w
              = (Returns (0, Some e),
                 \<lparr>db = db w, calls = calls w @ [CallBegin, CallDequeueLeaves limit, CallRollback]\<rparr>)"
    if "Begin (logStorage s) w = Inr tx0" "DequeueLeaves tx0 limit = (Inr leaves, tx)"
      "leaves \<noteq> []" "LatestSignedLogRoot tx = Inr root"
    using that i Begin_frame [OF that(1)] DequeueLeaves_frame [OF that(2)]
    by (simp add: SequenceBatch_def Rollback_def)
  from b i sr sb show ?thesis by blast
qed

text \<open>
  Witness: the root says one leaf, the storage has no row for the node of depth 0 and
  index 0.
\<close>

theorem hydration_needs_exactly_one_node_witness:
  "(\<exists>tx root.
      Begin (logStorage testSequencer) gappedWorld = Inr tx \<and>
      LatestSignedLogRoot tx = Inr root \<and> TreeSize root = 1 \<and>
      GetMerkleNodes tx (TreeRevision root) [\<lparr>nid_depth = 0, nid_index = 0\<rparr>] = Inr []) \<and>
   (\<exists>err. SignRoot testFns testSequencer gappedWorld
            = (Some err, \<lparr>db = db gappedWorld, calls = [CallBegin, CallRollback]\<rparr>)) \<and>
   (\<exists>err. SequenceBatch testFns testSequencer 1 (\<lambda>_. False) gappedWorld
            = (Returns (0, Some err),
               \<lparr>db = db gappedWorld, calls = [CallBegin, CallDequeueLeaves 1, CallRollback]\<rparr>))"
proof -
  let ?root = "\<lparr>TimestampNanos = 1, RootHash = [10], TreeSize = 1, Signature = Some [7],
                 LogId = [], TreeRevision = 1\<rparr>"
  let ?nid = "\<lparr>nid_depth = 0, nid_index = 0\<rparr>"
  obtain tx where b: "Begin (logStorage testSequencer) gappedWorld = Inr tx"
    by (simp add: Begin_def fixture_defs)
  from b have tx: "tx = \<lparr>tx_storage = goodStorage, tx_base = db gappedWorld, tx_work = db gappedWorld,
      tx_revision = 2, tx_calls = [CallBegin]\<rparr>"
    by (simp add: Begin_def fixture_defs gappedWorld_def)
  obtain tx1 where d: "DequeueLeaves tx 1 = (Inr [leafB], tx1)"
    by (simp add: tx DequeueLeaves_def called_def fixture_defs gappedWorld_def)
  from d have tx1: "tx1 = tx\<lparr>tx_calls := [CallBegin, CallDequeueLeaves 1],
                       tx_work := (db gappedWorld)\<lparr>queue := []\<rparr>\<rparr>"
    by (auto simp: tx DequeueLeaves_def called_def fixture_defs gappedWorld_def)
  have lr: "LatestSignedLogRoot tx = Inr ?root" "LatestSignedLogRoot tx1 = Inr ?root"
    by (simp_all add: tx1 tx LatestSignedLogRoot_def fixture_defs gappedWorld_def)
  have bt: "bit (TreeSize ?root) 0"
    by simp
  have ni: "NewNodeIDForTreeCoords testFns (of_nat 0) (drop_bit 0 (TreeSize ?root) - 1) maxTreeDepth = Inr ?nid"
    by (simp add: testFns_def)
  have gm: "GetMerkleNodes tx (TreeRevision ?root) [?nid] = Inr []"
    "GetMerkleNodes tx1 (TreeRevision ?root) [?nid] = Inr []"
    by (simp_all add: tx1 tx GetMerkleNodes_def latest_rows_def goodStorage_def gappedWorld_def)
  have len: "length ([] :: Node list) \<noteq> 1"
    by simp
  have c: "calls gappedWorld = []"
    by (simp add: gappedWorld_def)
  from hydration_needs_exactly_one_node [OF bt ni gm(1) len, of testSequencer gappedWorld] b lr(1)
  have "\<exists>err. SignRoot testFns testSequencer gappedWorld
            = (Some err, \<lparr>db = db gappedWorld, calls = [CallBegin, CallRollback]\<rparr>)"
    by (simp add: c)
  moreover
  from hydration_needs_exactly_one_node [OF bt ni gm(2) len, of testSequencer gappedWorld tx 1 "[leafB]" "\<lambda>_. False"]
    b d lr(2)
  have "\<exists>err. SequenceBatch testFns testSequencer 1 (\<lambda>_. False) gappedWorld
            = (Returns (0, Some err),
               \<lparr>db = db gappedWorld, calls = [CallBegin, CallDequeueLeaves 1, CallRollback]\<rparr>)"
    by (simp add: c)
  moreover have "\<exists>tx root.
      Begin (logStorage testSequencer) gappedWorld = Inr tx \<and>
      LatestSignedLogRoot tx = Inr root \<and> TreeSize root = 1 \<and>
      GetMerkleNodes tx (TreeRevision root) [\<lparr>nid_depth = 0, nid_index = 0\<rparr>] = Inr []"
    using b lr(1) gm(1) by (intro exI [of _ tx] exI [of _ ?root]) simp
  ultimately show ?thesis
    by blast
qed

subsection \<open>C8: the root that SignRoot stores\<close>

text \<open>
  C8. A \<open>SignRoot\<close> that returns no error has stored a new root at the head of the roots
  of the committed state and changed nothing else in it: no leaf is added. The tree
  revision of the new root is the current root's plus one (in 64 bits), its tree size is
  the current root's, its log id is the current root's. When the current tree size is 0
  the tree is the fresh empty compact tree and the root hash of the new root is the hash
  of the empty tree. On a fresh log, one with no root stored, the new root has tree size
  0, the root hash of the empty tree and tree revision 1.
\<close>

theorem SignRoot_stores_next_root:
  assumes "Begin (logStorage s) w = Inr tx"
      and "LatestSignedLogRoot tx = Inr currentRoot"
      and "SignRoot pkg s w = (None, w')"
  shows "\<exists>sth. roots (db w') = sth # roots (db w) \<and>
               queue (db w') = queue (db w) \<and> sequenced (db w') = sequenced (db w) \<and>
               nodes (db w') = nodes (db w) \<and>
               LogId sth = LogId currentRoot \<and>
               TreeRevision sth = TreeRevision currentRoot + 1 \<and>
               TreeSize sth = TreeSize currentRoot \<and>
               (TreeSize currentRoot = 0 \<longrightarrow>
                  initMerkleTreeFromStorage pkg s currentRoot tx = Inr (NewCompactMerkleTree (hasher s)) \<and>
                  RootHash sth = HashEmpty (hasher s)) \<and>
               (roots (db w) = [] \<longrightarrow>
                  TreeSize sth = 0 \<and> RootHash sth = HashEmpty (hasher s) \<and> TreeRevision sth = 1)"
proof -
  from assms obtain mt where im: "initMerkleTreeFromStorage pkg s currentRoot tx = Inr mt"
    by (auto simp: SignRoot_def split: sum.splits)
  let ?new = "newLogRootOf s mt currentRoot (TreeRevision currentRoot + 1)"
  from assms im obtain sig where sg: "signRoot s ?new = Inr sig"
    by (auto simp: SignRoot_def Let_def split: sum.splits)
  let ?sth = "?new\<lparr>Signature := Some sig\<rparr>"
  from assms im sg obtain tx1 where st: "StoreSignedLogRoot tx ?sth = (None, tx1)"
    and cm: "Commit tx1 = (None, w')"
    by (auto simp: SignRoot_def Let_def split: sum.splits prod.splits option.splits)
  note fr = Begin_frame [OF assms(1)]
  have dbw: "roots (db w') = ?sth # roots (db w)" "queue (db w') = queue (db w)"
    "sequenced (db w') = sequenced (db w)" "nodes (db w') = nodes (db w)"
    using Commit_None [OF cm] StoreSignedLogRoot_work [OF st] fr by simp_all
  have sz: "Size mt = TreeSize currentRoot"
    using initMerkleTreeFromStorage_size [OF im] .
  have e: "mt = NewCompactMerkleTree (hasher s)" if "TreeSize currentRoot = 0"
    using im that by (simp add: initMerkleTreeFromStorage_def)
  have z: "currentRoot = zeroRoot" if "roots (db w) = []"
    using LatestSignedLogRoot_fresh [OF assms(2)] that fr by simp
  have "LogId ?sth = LogId currentRoot" "TreeRevision ?sth = TreeRevision currentRoot + 1"
    "TreeSize ?sth = TreeSize currentRoot"
    using sz by (simp_all add: newLogRootOf_def)
  moreover have "TreeSize currentRoot = 0 \<longrightarrow>
      initMerkleTreeFromStorage pkg s currentRoot tx = Inr (NewCompactMerkleTree (hasher s)) \<and>
      RootHash ?sth = HashEmpty (hasher s)"
    using e im by (auto simp: newLogRootOf_def CurrentRoot_empty)
  moreover have "roots (db w) = [] \<longrightarrow>
      TreeSize ?sth = 0 \<and> RootHash ?sth = HashEmpty (hasher s) \<and> TreeRevision ?sth = 1"
    using z e sz by (auto simp: newLogRootOf_def CurrentRoot_empty zeroRoot_def)
  ultimately show ?thesis
    using dbw by (intro exI [of _ ?sth]) blast
qed

text \<open>Witness: \<open>SignRoot\<close> on an empty log with nothing queued.\<close>

theorem SignRoot_stores_next_root_witness:
  "SignRoot testFns testSequencer idleWorld
     = (None,
        \<lparr>db = \<lparr>queue = [], sequenced = [], nodes = [],
                roots = [\<lparr>TimestampNanos = 12345, RootHash = HashEmpty testHasher, TreeSize = 0,
                          Signature = Some [7], LogId = [], TreeRevision = 1\<rparr>]\<rparr>,
         calls = [CallBegin,
                  CallStoreSignedLogRoot
                    \<lparr>TimestampNanos = 12345, RootHash = HashEmpty testHasher, TreeSize = 0,
                     Signature = Some [7], LogId = [], TreeRevision = 1\<rparr>,
                  CallCommit]\<rparr>) \<and>
   (\<exists>sth. roots (db (snd (SignRoot testFns testSequencer idleWorld))) = sth # roots (db idleWorld) \<and>
          TreeSize sth = 0 \<and> RootHash sth = HashEmpty (hasher testSequencer) \<and> TreeRevision sth = 1)"
proof -
  obtain tx where b: "Begin (logStorage testSequencer) idleWorld = Inr tx"
    by (simp add: Begin_def fixture_defs)
  from b have tx: "tx = \<lparr>tx_storage = goodStorage, tx_base = db idleWorld, tx_work = db idleWorld,
      tx_revision = 1, tx_calls = [CallBegin]\<rparr>"
    by (simp add: Begin_def fixture_defs idleWorld_def)
  have lr: "LatestSignedLogRoot tx = Inr zeroRoot"
    by (simp add: tx LatestSignedLogRoot_def fixture_defs idleWorld_def)
  have run: "SignRoot testFns testSequencer idleWorld
     = (None,
        \<lparr>db = \<lparr>queue = [], sequenced = [], nodes = [],
                roots = [\<lparr>TimestampNanos = 12345, RootHash = HashEmpty testHasher, TreeSize = 0,
                          Signature = Some [7], LogId = [], TreeRevision = 1\<rparr>]\<rparr>,
         calls = [CallBegin,
                  CallStoreSignedLogRoot
                    \<lparr>TimestampNanos = 12345, RootHash = HashEmpty testHasher, TreeSize = 0,
                     Signature = Some [7], LogId = [], TreeRevision = 1\<rparr>,
                  CallCommit]\<rparr>)"
    by (simp add: model_defs fixture_defs idleWorld_def Let_def)
  have "roots (db idleWorld) = []"
    by (simp add: idleWorld_def)
  with SignRoot_stores_next_root [OF b lr run]
  have "\<exists>sth. roots (db (snd (SignRoot testFns testSequencer idleWorld))) = sth # roots (db idleWorld) \<and>
          TreeSize sth = 0 \<and> RootHash sth = HashEmpty (hasher testSequencer) \<and> TreeRevision sth = 1"
    unfolding run by auto
  with run show ?thesis by blast
qed

subsection \<open>C9: the panic on a wrong number of sequence numbers\<close>

text \<open>
  C9. From line 213 on, \<open>SequenceBatch\<close> panics when the sequence numbers are not as
  many as the leaves, and the transaction is left as it was, neither committed nor
  rolled back. \<open>sequenceLeaves\<close>, when it returns no error, returns one sequence number
  for each leaf, so \<open>SequenceBatch\<close> as a whole never panics.
\<close>

theorem sequence_number_mismatch_panics:
  "(length sequenceNumbers \<noteq> length leaves \<longrightarrow>
      integrateBatch s tx currentRoot newVersion leaves nodeMap sequenceNumbers merkleTree
        = (Panics, abandoned tx)) \<and>
   (sequenceLeaves pkg mt leaves' = Inr (nodeMap', sequenceNumbers', mt') \<longrightarrow>
      length sequenceNumbers' = length leaves') \<and>
   fst (SequenceBatch pkg' s' limit expiryFunc w) \<noteq> Panics"
proof (intro conjI impI)
  assume "length sequenceNumbers \<noteq> length leaves"
  then show "integrateBatch s tx currentRoot newVersion leaves nodeMap sequenceNumbers merkleTree
        = (Panics, abandoned tx)"
    by (simp add: integrateBatch_def)
next
  assume "sequenceLeaves pkg mt leaves' = Inr (nodeMap', sequenceNumbers', mt')"
  then show "length sequenceNumbers' = length leaves'"
    by (rule sequenceLeaves_numbers(3))
next
  obtain r w' where run: "SequenceBatch pkg' s' limit expiryFunc w = (r, w')"
    by fastforce
  have "r \<noteq> Panics"
  proof (cases "Begin (logStorage s') w")
    case (Inl err)
    with run show ?thesis by (auto simp: SequenceBatch_def)
  next
    case (Inr tx0)
    obtain dequeued tx1 where dq: "DequeueLeaves tx0 limit = (dequeued, tx1)"
      by fastforce
    from Inr dq run show ?thesis
    proof (cases rule: SequenceBatch_outcome)
      case (rolled_back err)
      then show ?thesis by simp
    next
      case (empty_batch cur)
      then show ?thesis by (cases "expiryFunc cur") auto
    next
      case (integrated leaves cur mt nm seqs mt' tx2 tx3 tx4 sig targetNodes)
      from integrated(12) show ?thesis
        by (cases "Commit tx4") (auto split: option.splits)
    qed
  qed
  then show "fst (SequenceBatch pkg' s' limit expiryFunc w) \<noteq> Panics"
    by (simp add: run)
qed

text \<open>
  Witness: one sequence number for two leaves panics; the two leaves sequenced on an
  empty tree get two numbers.
\<close>

theorem sequence_number_mismatch_panics_witness:
  "length [0 :: int64] \<noteq> length [leafA, leafB] \<and>
   fst (integrateBatch testSequencer
          \<lparr>tx_storage = goodStorage, tx_base = db freshWorld, tx_work = db freshWorld,
           tx_revision = 1, tx_calls = [CallBegin]\<rparr>
          zeroRoot 1 [leafA, leafB] [] [0] (NewCompactMerkleTree testHasher)) = Panics \<and>
   (\<exists>nodeMap mt'. sequenceLeaves testFns (NewCompactMerkleTree testHasher) [leafA, leafB]
        = Inr (nodeMap, [0, 1], mt')) \<and>
   length [0 :: int64, 1] = length [leafA, leafB] \<and>
   fst (SequenceBatch testFns testSequencer 2 (\<lambda>_. False) freshWorld) \<noteq> Panics"
proof -
  let ?tx = "\<lparr>tx_storage = goodStorage, tx_base = db freshWorld, tx_work = db freshWorld,
           tx_revision = 1, tx_calls = [CallBegin]\<rparr>"
  obtain nodeMap mt' where sl: "sequenceLeaves testFns (NewCompactMerkleTree testHasher) [leafA, leafB]
        = Inr (nodeMap, [0, 1], mt')"
    by (simp add: model_defs fixture_defs Let_def)
  note t = sequence_number_mismatch_panics [of "[0]" "[leafA, leafB]" testSequencer ?tx zeroRoot 1 "[]"
      "NewCompactMerkleTree testHasher" testFns "NewCompactMerkleTree testHasher" "[leafA, leafB]"
      nodeMap "[0, 1]" mt' testFns testSequencer 2 "\<lambda>_. False" freshWorld]
  from t sl show ?thesis
    by auto
qed

subsection \<open>C10: the count that comes with an error\<close>

text \<open>
  C10. When \<open>SequenceBatch\<close> returns an error, the count it returns with it is 0. When
  it returns a count that is not 0, there is no error; the transaction was begun, the
  dequeue gave leaves, not none, and their number is the count; the calls made are the
  dequeue, the three writes and the commit, in this order and no others; and the new
  root is at the head of the roots of the committed state.
\<close>

theorem SequenceBatch_count:
  assumes "SequenceBatch pkg s limit expiryFunc w = (Returns (n, err), w')"
  shows "(err \<noteq> None \<longrightarrow> n = 0) \<and>
         (n \<noteq> 0 \<longrightarrow>
            err = None \<and>
            (\<exists>tx leaves tx1 ls ns sth.
               Begin (logStorage s) w = Inr tx \<and>
               DequeueLeaves tx limit = (Inr leaves, tx1) \<and> leaves \<noteq> [] \<and>
               n = int (length leaves) \<and>
               calls w' = calls w @ [CallBegin, CallDequeueLeaves limit, CallUpdateSequencedLeaves ls,
                                     CallSetMerkleNodes ns, CallStoreSignedLogRoot sth, CallCommit] \<and>
               roots (db w') = sth # roots (db w)))"
proof (cases "Begin (logStorage s) w")
  case (Inl e)
  with assms show ?thesis by (auto simp: SequenceBatch_def)
next
  case (Inr tx)
  obtain dequeued tx1 where dq: "DequeueLeaves tx limit = (dequeued, tx1)"
    by fastforce
  from Inr dq assms show ?thesis
  proof (cases rule: SequenceBatch_outcome)
    case (rolled_back e)
    then show ?thesis by simp
  next
    case (empty_batch cur)
    then show ?thesis by (cases "expiryFunc cur") auto
  next
    case (integrated leaves cur mt nm seqs mt' tx2 tx3 tx4 sig targetNodes)
    show ?thesis
    proof (cases "fst (Commit tx4)")
      case (Some e)
      with integrated(12) show ?thesis
        by (cases "Commit tx4") auto
    next
      case None
      with integrated(12) have c: "Commit tx4 = (None, w')" and n: "n = int (length leaves)" "err = None"
        by (cases "Commit tx4"; auto)+
      let ?sth = "(newLogRootOf s mt' cur (WriteRevision tx1))\<lparr>Signature := Some sig\<rparr>"
      have cs: "calls w' = calls w @ [CallBegin, CallDequeueLeaves limit,
                  CallUpdateSequencedLeaves (assignSequenceNumbers leaves seqs),
                  CallSetMerkleNodes targetNodes, CallStoreSignedLogRoot ?sth, CallCommit]"
        using Commit_None [OF c] StoreSignedLogRoot_frame [OF integrated(11)]
          SetMerkleNodes_frame [OF integrated(9)] UpdateSequencedLeaves_frame [OF integrated(7)]
          DequeueLeaves_frame [OF dq] Begin_frame [OF Inr] by simp
      have rs: "roots (db w') = ?sth # roots (db w)"
        using Commit_None [OF c] StoreSignedLogRoot_work [OF integrated(11)]
          SetMerkleNodes_work [OF integrated(9)] UpdateSequencedLeaves_work [OF integrated(7)]
          DequeueLeaves_work [OF dq [unfolded integrated(1)]] Begin_frame [OF Inr] by simp
      show ?thesis
        using n Inr dq [unfolded integrated(1)] integrated(2) cs rs by blast
    qed
  qed
qed

text \<open>
  Witness: the batch that fails for want of a signer returns 0 with its error, and a
  batch of one leaf on an empty log returns 1.
\<close>

theorem SequenceBatch_count_witness:
  "SequenceBatch testFns keylessSequencer 2 (\<lambda>_. False) freshWorld
     = (Returns (0, Some (Err ''no signer'')), snd (SequenceBatch testFns keylessSequencer 2 (\<lambda>_. False) freshWorld)) \<and>
   fst (SequenceBatch testFns testSequencer 1 (\<lambda>_. False) freshWorld) = Returns (1, None) \<and>
   (\<exists>ls ns sth.
      calls (snd (SequenceBatch testFns testSequencer 1 (\<lambda>_. False) freshWorld))
        = calls freshWorld @ [CallBegin, CallDequeueLeaves 1, CallUpdateSequencedLeaves ls,
                              CallSetMerkleNodes ns, CallStoreSignedLogRoot sth, CallCommit] \<and>
      roots (db (snd (SequenceBatch testFns testSequencer 1 (\<lambda>_. False) freshWorld)))
        = sth # roots (db freshWorld))"
proof -
  obtain n e w1 where r1: "SequenceBatch testFns keylessSequencer 2 (\<lambda>_. False) freshWorld = (Returns (n, e), w1)"
    and e: "e = Some (Err ''no signer'')"
    by (simp add: model_defs fixture_defs keylessSequencer_def Let_def)
  obtain w2 where r2: "SequenceBatch testFns testSequencer 1 (\<lambda>_. False) freshWorld = (Returns (1, None), w2)"
    by (simp add: model_defs fixture_defs Let_def)
  from SequenceBatch_count [OF r1] e have "n = 0"
    by simp
  moreover from SequenceBatch_count [OF r2]
  have "\<exists>ls ns sth.
      calls w2 = calls freshWorld @ [CallBegin, CallDequeueLeaves 1, CallUpdateSequencedLeaves ls,
                              CallSetMerkleNodes ns, CallStoreSignedLogRoot sth, CallCommit] \<and>
      roots (db w2) = sth # roots (db freshWorld)"
    by auto
  ultimately show ?thesis
    by (simp add: r1 r2 e)
qed

end
